theory Spec2Isabelle
  imports Main
begin

unbundle bit_operations_syntax

section \<open>Strings\<close>

text \<open>
  Two kinds of Go string occur in \<^verbatim>\<open>cmd/api/main.go\<close>.  The request method and the URL path
  are compared and parsed byte by byte, so they are \<^typ>\<open>string\<close> (a list of bytes).  Every
  string that passes through \<^verbatim>\<open>encoding/json\<close> (titles, object keys, messages) is valid UTF-8,
  and \<^verbatim>\<open>strings.TrimSpace\<close> looks at its code points: such a string is the list of its code
  points.
\<close>

type_synonym rune = nat

type_synonym ustring = "rune list"

definition runes :: "string \<Rightarrow> ustring" where
  \<comment> \<open>an ASCII literal as code points\<close>
  "runes s = map of_char s"

definition IsSpace :: "rune \<Rightarrow> bool" where
  \<comment> \<open>\<^verbatim>\<open>unicode.IsSpace\<close>: the Latin-1 switch, then the \<^verbatim>\<open>White_Space\<close> table\<close>
  "IsSpace r =
     (if r \<le> 255 then r \<in> set [9, 10, 11, 12, 13, 32, 133, 160]
      else r = 5760 \<or> (8192 \<le> r \<and> r \<le> 8202) \<or> r = 8232 \<or> r = 8233
           \<or> r = 8239 \<or> r = 8287 \<or> r = 12288)"

definition TrimSpace :: "ustring \<Rightarrow> ustring" where
  \<comment> \<open>\<^verbatim>\<open>strings.TrimSpace\<close>: white space removed at both ends\<close>
  "TrimSpace s = rev (dropWhile IsSpace (rev (dropWhile IsSpace s)))"

definition TrimPrefix :: "string \<Rightarrow> string \<Rightarrow> string" where
  \<comment> \<open>\<^verbatim>\<open>strings.TrimPrefix\<close>: \<open>s\<close> itself when it does not start with \<open>p\<close>\<close>
  "TrimPrefix s p = (if take (length p) s = p then drop (length p) s else s)"

section \<open>strconv.ParseInt at base 10 and 64 bits\<close>

text \<open>
  The handler of \<^verbatim>\<open>/movies/\<close> calls \<^verbatim>\<open>strconv.ParseInt(idStr, 10, 64)\<close>.  The definitions
  follow the library's \<^verbatim>\<open>ParseUint\<close> and \<^verbatim>\<open>ParseInt\<close> with \<^verbatim>\<open>base = 10\<close> and
  \<^verbatim>\<open>bitSize = 64\<close>: both return a value together with an error, the accumulator is a
  \<^verbatim>\<open>uint64\<close> (a natural number below \<open>2 ^ 64\<close>, every operation reduced modulo \<open>2 ^ 64\<close>), and
  the result is an \<^verbatim>\<open>int64\<close>.
\<close>

datatype NumError = ErrSyntax | ErrRange

definition maxUint64 :: nat where
  "maxUint64 = 2 ^ 64 - 1"

definition lower :: "nat \<Rightarrow> nat" where
  \<comment> \<open>\<^verbatim>\<open>c | ('x' - 'X')\<close>\<close>
  "lower c = c OR 32"

definition digit_val :: "char \<Rightarrow> nat option" where
  \<comment> \<open>the \<^verbatim>\<open>switch\<close> on the byte \<open>c\<close>: a decimal digit, a letter, or a syntax error\<close>
  "digit_val c =
     (let b = (of_char c :: nat) in
      if 48 \<le> b \<and> b \<le> 57 then Some (b - 48)
      else if 97 \<le> lower b \<and> lower b \<le> 122 then Some (lower b - 97 + 10)
      else None)"

fun ParseUint_loop :: "nat \<Rightarrow> string \<Rightarrow> nat \<times> NumError option" where
  "ParseUint_loop n [] = (n, None)"
| "ParseUint_loop n (c # cs) =
     (case digit_val c of
        None \<Rightarrow> (0, Some ErrSyntax)
      | Some d \<Rightarrow>
          if d \<ge> 10 then (0, Some ErrSyntax)
          else if n \<ge> maxUint64 div 10 + 1 then (maxUint64, Some ErrRange)
          else
            (let n10 = (n * 10) mod 2 ^ 64;
                 n1 = (n10 + d) mod 2 ^ 64
             in if n1 < n10 \<or> n1 > maxUint64 then (maxUint64, Some ErrRange)
                else ParseUint_loop n1 cs))"

definition ParseUint :: "string \<Rightarrow> nat \<times> NumError option" where
  "ParseUint s = (if s = [] then (0, Some ErrSyntax) else ParseUint_loop 0 s)"

definition int64 :: "int \<Rightarrow> int" where
  \<comment> \<open>conversion to \<^verbatim>\<open>int64\<close>: the value modulo \<open>2 ^ 64\<close>, read as two's complement\<close>
  "int64 x = (x + 2 ^ 63) mod 2 ^ 64 - 2 ^ 63"

definition ParseInt :: "string \<Rightarrow> int \<times> NumError option" where
  "ParseInt s0 =
     (case s0 of
        [] \<Rightarrow> (0, Some ErrSyntax)
      | c # cs \<Rightarrow>
          (let neg = (c = CHR ''-'');
               s = (if c = CHR ''+'' \<or> c = CHR ''-'' then cs else s0);
               (un, err) = ParseUint s
           in if err \<noteq> None \<and> err \<noteq> Some ErrRange then (0, err)
              else if \<not> neg \<and> un \<ge> 2 ^ 63 then (2 ^ 63 - 1, Some ErrRange)
              else if neg \<and> un > 2 ^ 63 then (- (2 ^ 63), Some ErrRange)
              else (let n = int64 (int un) in if neg then int64 (- n) else n, None)))"

section \<open>JSON values, decoding and encoding\<close>

datatype json =
    JNull
  | JBool bool
  | JNum int
  | JStr ustring
  | JArr "json list"
  | JObj "(ustring \<times> json) list"

text \<open>
  A request body as \<^verbatim>\<open>json.Decoder.Decode\<close> meets it: input whose head is not a complete JSON
  value (or no input at all), or a first JSON value together with the bytes that come after
  it.  \<^verbatim>\<open>readJSON\<close> calls \<^verbatim>\<open>Decode\<close> once and never asks whether the input has ended.  The
  members of an object are kept in the order of the text, duplicates included.
\<close>

datatype reqbody = Malformed | DocRest json string

abbreviation Doc :: "json \<Rightarrow> reqbody" where
  \<comment> \<open>a body that is one JSON value and nothing more\<close>
  "Doc v \<equiv> DocRest v []"

datatype json_error = SyntaxError | UnmarshalTypeError | UnknownField ustring

definition ascii_upper :: "rune \<Rightarrow> rune" where
  "ascii_upper r = (if 97 \<le> r \<and> r \<le> 122 then r - 32 else r)"

definition is_title_field :: "ustring \<Rightarrow> bool" where
  \<comment> \<open>the decoder's field lookup for the only field, tagged \<^verbatim>\<open>json:"title"\<close>: the exact name
      first, then the name up to letter case\<close>
  "is_title_field k = (k = runes ''title'' \<or> map ascii_upper k = runes ''TITLE'')"

fun saveError :: "json_error option \<Rightarrow> json_error \<Rightarrow> json_error option" where
  \<comment> \<open>the decoder keeps the first error and goes on\<close>
  "saveError None e = Some e"
| "saveError (Some e0) e = Some e0"

fun decode_object ::
  "(ustring \<times> json) list \<Rightarrow> json_error option \<times> ustring \<Rightarrow> json_error option \<times> ustring" where
  \<comment> \<open>the members of an object decoded into \<^verbatim>\<open>struct { Title string }\<close> after
      \<^verbatim>\<open>DisallowUnknownFields\<close>\<close>
  "decode_object [] st = st"
| "decode_object ((k, v) # kvs) (err, ttl) =
     (if is_title_field k then
        (case v of
           JStr s \<Rightarrow> decode_object kvs (err, s)
         | JNull \<Rightarrow> decode_object kvs (err, ttl)
         | _ \<Rightarrow> decode_object kvs (saveError err UnmarshalTypeError, ttl))
      else decode_object kvs (saveError err (UnknownField k), ttl))"

definition readJSON :: "reqbody \<Rightarrow> json_error + ustring" where
  \<comment> \<open>\<^verbatim>\<open>readJSON(r, &in)\<close> on a zero \<^verbatim>\<open>in\<close>: the error, or the decoded \<^verbatim>\<open>in.Title\<close>\<close>
  "readJSON b =
     (case b of
        Malformed \<Rightarrow> Inl SyntaxError
      | DocRest JNull rest \<Rightarrow> Inr []
      | DocRest (JObj kvs) rest \<Rightarrow>
          (case decode_object kvs (None, []) of
             (Some e, _) \<Rightarrow> Inl e
           | (None, t) \<Rightarrow> Inr t)
      | DocRest _ rest \<Rightarrow> Inl UnmarshalTypeError)"

record Movie =
  ID :: int
  Title :: ustring

text \<open>A Go slice is \<^verbatim>\<open>nil\<close> until something is appended to it.\<close>

datatype 'a slice = nil_slice | Slice "'a list"

fun append_slice :: "'a slice \<Rightarrow> 'a \<Rightarrow> 'a slice" where
  "append_slice nil_slice x = Slice [x]"
| "append_slice (Slice xs) x = Slice (xs @ [x])"

text \<open>The values that the handlers pass to \<^verbatim>\<open>writeJSON\<close>.\<close>

datatype goval =
    VMap "(ustring \<times> ustring) list"
  | VMovie Movie
  | VMovies "Movie slice"

definition encode_movie :: "Movie \<Rightarrow> json" where
  "encode_movie m = JObj [(runes ''id'', JNum (ID m)), (runes ''title'', JStr (Title m))]"

fun Encode :: "goval \<Rightarrow> json" where
  \<comment> \<open>\<^verbatim>\<open>json.Encoder.Encode\<close>: a \<^verbatim>\<open>nil\<close> slice is written as \<^verbatim>\<open>null\<close>\<close>
  "Encode (VMap kvs) = JObj (map (\<lambda>(k, v). (k, JStr v)) kvs)"
| "Encode (VMovie m) = encode_movie m"
| "Encode (VMovies nil_slice) = JNull"
| "Encode (VMovies (Slice ms)) = JArr (map encode_movie ms)"

section \<open>Requests and responses\<close>

record request =
  meth :: string
  path :: string
  body :: reqbody

text \<open>
  A response as the handler leaves it: the header fields it set, the status code and the body
  it wrote (\<open>None\<close> when it wrote nothing).
\<close>

record response =
  header :: "(string \<times> string) list"
  status :: nat
  payload :: "json option"

definition writeJSON :: "nat \<Rightarrow> goval \<Rightarrow> response" where
  "writeJSON code v =
     \<lparr>header = [(''Content-Type'', ''application/json'')], status = code,
      payload = Some (Encode v)\<rparr>"

definition WriteHeader :: "nat \<Rightarrow> response" where
  \<comment> \<open>\<^verbatim>\<open>w.WriteHeader(code)\<close> on a fresh writer, nothing else\<close>
  "WriteHeader code = \<lparr>header = [], status = code, payload = None\<rparr>"

definition errorMap :: "ustring \<Rightarrow> goval" where
  \<comment> \<open>\<^verbatim>\<open>map[string]string{"error": msg}\<close>\<close>
  "errorMap msg = VMap [(runes ''error'', msg)]"

section \<open>The table\<close>

text \<open>
  The table \<^verbatim>\<open>movies(id SERIAL PRIMARY KEY, title TEXT NOT NULL)\<close> of the schema: its rows in
  storage order and the last value handed out by the sequence behind \<^verbatim>\<open>id\<close>.  A statement
  may also fail for a reason outside the table (connection, server); \<^term>\<open>stmt_err\<close> is the
  error text the driver then reports for the statement of the request, and \<^term>\<open>scan_err\<close>
  the error of \<^verbatim>\<open>rows.Scan\<close> on the row of a given position.
\<close>

record store =
  movies :: "(int \<times> ustring) list"
  last_value :: nat

record driver =
  stmt_err :: "ustring option"
  scan_err :: "nat \<Rightarrow> ustring option"

datatype dberr = ErrNoRows | DriverErr ustring

fun err_text :: "dberr \<Rightarrow> ustring" where
  \<comment> \<open>\<^verbatim>\<open>err.Error()\<close>\<close>
  "err_text ErrNoRows = runes ''sql: no rows in result set''"
| "err_text (DriverErr e) = e"

datatype stmt =
    SelectAll
  | InsertTitle ustring
  | SelectById int
  | UpdateTitle ustring int
  | DeleteById int

datatype event = ReadBody | Sql stmt

definition has_id :: "int \<Rightarrow> int \<times> ustring \<Rightarrow> bool" where
  "has_id i row = (fst row = i)"

definition db_select_all :: "driver \<Rightarrow> store \<Rightarrow> dberr + (int \<times> ustring) list" where
  \<comment> \<open>\<^verbatim>\<open>SELECT id, title FROM movies ORDER BY id\<close>\<close>
  "db_select_all drv db =
     (case stmt_err drv of
        Some e \<Rightarrow> Inl (DriverErr e)
      | None \<Rightarrow> Inr (sort_key fst (movies db)))"

definition db_insert :: "driver \<Rightarrow> ustring \<Rightarrow> store \<Rightarrow> (dberr + int) \<times> store" where
  \<comment> \<open>\<^verbatim>\<open>INSERT INTO movies (title) VALUES ($1) RETURNING id\<close>: the next value of the
      sequence (a 32-bit \<^verbatim>\<open>SERIAL\<close>), refused by the primary key when a row has it already\<close>
  "db_insert drv t db =
     (case stmt_err drv of
        Some e \<Rightarrow> (Inl (DriverErr e), db)
      | None \<Rightarrow>
          (let i = int (last_value db) + 1 in
           if i > 2147483647 then
             (Inl (DriverErr (runes ''nextval: reached maximum value of sequence'')), db)
           else if list_ex (has_id i) (movies db) then
             (Inl (DriverErr (runes ''duplicate key value violates unique constraint'')),
              db\<lparr>last_value := last_value db + 1\<rparr>)
           else
             (Inr i, db\<lparr>movies := movies db @ [(i, t)], last_value := last_value db + 1\<rparr>)))"

definition db_select_by_id :: "driver \<Rightarrow> int \<Rightarrow> store \<Rightarrow> dberr + (int \<times> ustring)" where
  \<comment> \<open>\<^verbatim>\<open>SELECT id, title FROM movies WHERE id=$1\<close> through \<^verbatim>\<open>QueryRow(...).Scan\<close>\<close>
  "db_select_by_id drv i db =
     (case stmt_err drv of
        Some e \<Rightarrow> Inl (DriverErr e)
      | None \<Rightarrow>
          (case filter (has_id i) (movies db) of
             [] \<Rightarrow> Inl ErrNoRows
           | row # _ \<Rightarrow> Inr row))"

definition db_update :: "driver \<Rightarrow> ustring \<Rightarrow> int \<Rightarrow> store \<Rightarrow> dberr + (nat \<times> store)" where
  \<comment> \<open>\<^verbatim>\<open>UPDATE movies SET title=$1 WHERE id=$2\<close>, with the number of rows affected\<close>
  "db_update drv t i db =
     (case stmt_err drv of
        Some e \<Rightarrow> Inl (DriverErr e)
      | None \<Rightarrow>
          Inr (length (filter (has_id i) (movies db)),
               db\<lparr>movies := map (\<lambda>row. if has_id i row then (fst row, t) else row) (movies db)\<rparr>))"

definition db_delete :: "driver \<Rightarrow> int \<Rightarrow> store \<Rightarrow> dberr + (nat \<times> store)" where
  \<comment> \<open>\<^verbatim>\<open>DELETE FROM movies WHERE id=$1\<close>, with the number of rows affected\<close>
  "db_delete drv i db =
     (case stmt_err drv of
        Some e \<Rightarrow> Inl (DriverErr e)
      | None \<Rightarrow>
          Inr (length (filter (has_id i) (movies db)),
               db\<lparr>movies := filter (\<lambda>row. \<not> has_id i row) (movies db)\<rparr>))"

section \<open>The handlers\<close>

text \<open>
  The three functions registered on the mux, for the patterns \<^verbatim>\<open>/health\<close>, \<^verbatim>\<open>/movies\<close> and
  \<^verbatim>\<open>/movies/\<close>.  A handler returns the response, the table after the request and the effects
  it had, in order: reading the body, and each SQL statement sent.  Which requests
  \<^verbatim>\<open>http.ServeMux\<close> hands to which handler, and what it answers by itself (redirects of
  unclean paths, 404), belongs to the library and is not part of this development: every
  statement below is about a handler applied to a request.
\<close>

record outcome =
  resp :: response
  db_after :: store
  trace :: "event list"

definition health :: "request \<Rightarrow> store \<Rightarrow> outcome" where
  "health r db =
     \<lparr>resp = writeJSON 200 (VMap [(runes ''status'', runes ''ok'')]), db_after = db, trace = []\<rparr>"

fun scan_rows ::
  "(nat \<Rightarrow> ustring option) \<Rightarrow> nat \<Rightarrow> (int \<times> ustring) list \<Rightarrow> Movie slice \<Rightarrow> ustring + Movie slice" where
  \<comment> \<open>the loop \<^verbatim>\<open>for rows.Next()\<close>: scan a row and append it, or stop at the first scan error\<close>
  "scan_rows se k [] out = Inr out"
| "scan_rows se k (row # rows) out =
     (case se k of
        Some e \<Rightarrow> Inl e
      | None \<Rightarrow> scan_rows se (Suc k) rows (append_slice out \<lparr>ID = fst row, Title = snd row\<rparr>))"

definition movies_collection :: "driver \<Rightarrow> request \<Rightarrow> store \<Rightarrow> outcome" where
  "movies_collection drv r db =
     (if meth r = ''GET'' then
        (case db_select_all drv db of
           Inl e \<Rightarrow>
             \<lparr>resp = writeJSON 500 (errorMap (err_text e)), db_after = db, trace = [Sql SelectAll]\<rparr>
         | Inr rows \<Rightarrow>
             (case scan_rows (scan_err drv) 0 rows nil_slice of
                Inl e \<Rightarrow>
                  \<lparr>resp = writeJSON 500 (errorMap e), db_after = db, trace = [Sql SelectAll]\<rparr>
              | Inr out \<Rightarrow>
                  \<lparr>resp = writeJSON 200 (VMovies out), db_after = db, trace = [Sql SelectAll]\<rparr>))
      else if meth r = ''POST'' then
        (case readJSON (body r) of
           Inl e \<Rightarrow>
             \<lparr>resp = writeJSON 400 (errorMap (runes ''invalid json'')), db_after = db,
              trace = [ReadBody]\<rparr>
         | Inr t0 \<Rightarrow>
             (let t = TrimSpace t0 in
              if t = [] then
                \<lparr>resp = writeJSON 400 (errorMap (runes ''title is required'')), db_after = db,
                 trace = [ReadBody]\<rparr>
              else
                (case db_insert drv t db of
                   (Inl e, db') \<Rightarrow>
                     \<lparr>resp = writeJSON 500 (errorMap (err_text e)), db_after = db',
                      trace = [ReadBody, Sql (InsertTitle t)]\<rparr>
                 | (Inr i, db') \<Rightarrow>
                     \<lparr>resp = writeJSON 201 (VMovie \<lparr>ID = i, Title = t\<rparr>), db_after = db',
                      trace = [ReadBody, Sql (InsertTitle t)]\<rparr>)))
      else \<lparr>resp = WriteHeader 405, db_after = db, trace = []\<rparr>)"

definition item_switch :: "driver \<Rightarrow> request \<Rightarrow> int \<Rightarrow> store \<Rightarrow> outcome" where
  \<comment> \<open>the \<^verbatim>\<open>switch r.Method\<close> of the \<^verbatim>\<open>/movies/\<close> handler, for the parsed identifier \<open>i\<close>\<close>
  "item_switch drv r i db =
     (if meth r = ''GET'' then
        (case db_select_by_id drv i db of
           Inl ErrNoRows \<Rightarrow>
             \<lparr>resp = writeJSON 404 (errorMap (runes ''not found'')), db_after = db,
              trace = [Sql (SelectById i)]\<rparr>
         | Inl (DriverErr e) \<Rightarrow>
             \<lparr>resp = writeJSON 500 (errorMap e), db_after = db, trace = [Sql (SelectById i)]\<rparr>
         | Inr row \<Rightarrow>
             \<lparr>resp = writeJSON 200 (VMovie \<lparr>ID = fst row, Title = snd row\<rparr>), db_after = db,
              trace = [Sql (SelectById i)]\<rparr>)
      else if meth r = ''PUT'' then
        (case readJSON (body r) of
           Inl e \<Rightarrow>
             \<lparr>resp = writeJSON 400 (errorMap (runes ''invalid json'')), db_after = db,
              trace = [ReadBody]\<rparr>
         | Inr t0 \<Rightarrow>
             (let t = TrimSpace t0 in
              if t = [] then
                \<lparr>resp = writeJSON 400 (errorMap (runes ''title is required'')), db_after = db,
                 trace = [ReadBody]\<rparr>
              else
                (case db_update drv t i db of
                   Inl e \<Rightarrow>
                     \<lparr>resp = writeJSON 500 (errorMap (err_text e)), db_after = db,
                      trace = [ReadBody, Sql (UpdateTitle t i)]\<rparr>
                 | Inr (aff, db') \<Rightarrow>
                     if aff = 0 then
                       \<lparr>resp = writeJSON 404 (errorMap (runes ''not found'')), db_after = db',
                        trace = [ReadBody, Sql (UpdateTitle t i)]\<rparr>
                     else
                       \<lparr>resp = writeJSON 200 (VMovie \<lparr>ID = i, Title = t\<rparr>), db_after = db',
                        trace = [ReadBody, Sql (UpdateTitle t i)]\<rparr>)))
      else if meth r = ''DELETE'' then
        (case db_delete drv i db of
           Inl e \<Rightarrow>
             \<lparr>resp = writeJSON 500 (errorMap (err_text e)), db_after = db,
              trace = [Sql (DeleteById i)]\<rparr>
         | Inr (aff, db') \<Rightarrow>
             if aff = 0 then
               \<lparr>resp = writeJSON 404 (errorMap (runes ''not found'')), db_after = db',
                trace = [Sql (DeleteById i)]\<rparr>
             else \<lparr>resp = WriteHeader 204, db_after = db', trace = [Sql (DeleteById i)]\<rparr>)
      else \<lparr>resp = WriteHeader 405, db_after = db, trace = []\<rparr>)"

definition movies_item :: "driver \<Rightarrow> request \<Rightarrow> store \<Rightarrow> outcome" where
  \<comment> \<open>the \<^verbatim>\<open>/movies/\<close> handler: the identifier is parsed and checked before the method is
      looked at\<close>
  "movies_item drv r db =
     (let idStr = TrimPrefix (path r) ''/movies/'';
          (i, err) = ParseInt idStr
      in
      if err \<noteq> None \<or> i \<le> 0 then
        \<lparr>resp = writeJSON 400 (errorMap (runes ''invalid id'')), db_after = db, trace = []\<rparr>
      else item_switch drv r i db)"

section \<open>The readiness gate\<close>

text \<open>
  \<^verbatim>\<open>waitForDB\<close> over the results of the successive calls of \<^verbatim>\<open>db.Ping()\<close>: \<open>ping k\<close> holds
  when call number \<open>k\<close> (from 0) returns no error.  The state counts the probes issued, the
  seconds spent in \<^verbatim>\<open>time.Sleep(1 * time.Second)\<close> and the lines logged.  The loop has no
  bound, so the function is partial: \<open>None\<close> means that it never returns.
\<close>

record gate =
  probes :: nat
  slept :: nat
  logged :: "string list"

definition gate0 :: gate where
  "gate0 = \<lparr>probes = 0, slept = 0, logged = []\<rparr>"

partial_function (option) waitForDB :: "(nat \<Rightarrow> bool) \<Rightarrow> gate \<Rightarrow> gate option" where
  "waitForDB ping g =
     (if ping (probes g) then Some (g\<lparr>probes := Suc (probes g)\<rparr>)
      else waitForDB ping
             (g\<lparr>probes := Suc (probes g),
                logged := logged g @ [''Waiting for database...''],
                slept := slept g + 1\<rparr>))"

declare waitForDB.simps [code]

section \<open>Notions used in the statements\<close>

text \<open>
  The number written by a string of decimal digits, and the decimal text of an integer as
  \<^verbatim>\<open>strconv.FormatInt(i, 10)\<close> and the JSON encoder write it.
\<close>

definition isDigit :: "char \<Rightarrow> bool" where
  "isDigit c = (48 \<le> (of_char c :: nat) \<and> (of_char c :: nat) \<le> 57)"

definition dec_step :: "nat \<Rightarrow> char \<Rightarrow> nat" where
  "dec_step n c = n * 10 + (of_char c - 48)"

definition dec_val :: "string \<Rightarrow> nat" where
  "dec_val s = foldl dec_step 0 s"

fun digits :: "nat \<Rightarrow> string" where
  "digits n =
     (if n < 10 then [char_of (48 + n)]
      else digits (n div 10) @ [char_of (48 + n mod 10)])"

declare digits.simps [simp del]

definition FormatInt :: "int \<Rightarrow> string" where
  "FormatInt i = (if i < 0 then CHR ''-'' # digits (nat (- i)) else digits (nat i))"

text \<open>
  The test at the head of the \<^verbatim>\<open>/movies/\<close> handler, as a predicate on the path: the rest of
  the path after the prefix parses without error to a number above zero.
\<close>

definition item_id :: "string \<Rightarrow> int" where
  "item_id p = fst (ParseInt (TrimPrefix p ''/movies/''))"

definition valid_id :: "string \<Rightarrow> bool" where
  "valid_id p = (snd (ParseInt (TrimPrefix p ''/movies/'')) = None \<and> 0 < item_id p)"

definition invalid_id_outcome :: "store \<Rightarrow> outcome" where
  "invalid_id_outcome db =
     \<lparr>resp = writeJSON 400 (errorMap (runes ''invalid id'')), db_after = db, trace = []\<rparr>"

text \<open>A body with a member that the decoder does not bind to the field \<^verbatim>\<open>Title\<close>.\<close>

definition has_unknown_field :: "reqbody \<Rightarrow> bool" where
  "has_unknown_field b =
     (case b of
        DocRest (JObj kvs) rest \<Rightarrow> list_ex (\<lambda>kv. \<not> is_title_field (fst kv)) kvs
      | _ \<Rightarrow> False)"

text \<open>
  The JSON values that cannot be stored in \<^verbatim>\<open>struct { Title string }\<close> when unknown fields
  are refused, said without the decoder: anything but \<^verbatim>\<open>null\<close> and an object, and an object
  with a member that is not the title, or that is the title with a value other than a string
  and \<^verbatim>\<open>null\<close>.
\<close>

definition rejected_member :: "ustring \<times> json \<Rightarrow> bool" where
  "rejected_member kv =
     (\<not> is_title_field (fst kv)
      \<or> (case snd kv of JStr s \<Rightarrow> False | JNull \<Rightarrow> False | _ \<Rightarrow> True))"

definition rejected_value :: "json \<Rightarrow> bool" where
  "rejected_value v =
     (case v of
        JNull \<Rightarrow> False
      | JObj kvs \<Rightarrow> list_ex rejected_member kvs
      | _ \<Rightarrow> True)"

text \<open>A body with a member whose name is not, letter for letter, \<^verbatim>\<open>title\<close>.\<close>

definition has_other_field :: "reqbody \<Rightarrow> bool" where
  "has_other_field b =
     (case b of
        DocRest (JObj kvs) rest \<Rightarrow> list_ex (\<lambda>kv. fst kv \<noteq> runes ''title'') kvs
      | _ \<Rightarrow> False)"

text \<open>
  A body that is not a JSON text: no JSON value at its head, or something other than white
  space after the first value.
\<close>

definition isJSONSpace :: "char \<Rightarrow> bool" where
  "isJSONSpace c = (c = CHR '' '' \<or> c = CHR 0x09 \<or> c = CHR 0x0A \<or> c = CHR 0x0D)"

definition malformed_json :: "reqbody \<Rightarrow> bool" where
  "malformed_json b =
     (case b of
        Malformed \<Rightarrow> True
      | DocRest v rest \<Rightarrow> \<not> list_all isJSONSpace rest)"

text \<open>A driver on which every statement and every scan goes through, and an empty table.\<close>

definition no_faults :: driver where
  "no_faults = \<lparr>stmt_err = None, scan_err = (\<lambda>k. None)\<rparr>"

definition empty_store :: store where
  "empty_store = \<lparr>movies = [], last_value = 0\<rparr>"

text \<open>
  The two ways a handler writes a response: through \<^verbatim>\<open>writeJSON\<close>, or by a bare
  \<^verbatim>\<open>WriteHeader\<close> for 405 and 204.
\<close>

definition json_or_bare :: "response \<Rightarrow> bool" where
  "json_or_bare rs =
     ((\<exists>c v. rs = writeJSON c v \<and> c \<noteq> 405 \<and> c \<noteq> 204)
      \<or> rs = WriteHeader 405 \<or> rs = WriteHeader 204)"

section \<open>Parsing decimal identifiers\<close>

lemma digit_val_digit: "isDigit c \<Longrightarrow> digit_val c = Some (of_char c - 48)"
  by (simp add: isDigit_def digit_val_def Let_def)

lemma foldl_dec_mono: "n \<le> foldl dec_step n cs"
proof (induction cs arbitrary: n)
  case Nil show ?case by simp
next
  case (Cons c cs)
  have "n \<le> dec_step n c" by (simp add: dec_step_def)
  also have "\<dots> \<le> foldl dec_step (dec_step n c) cs" by (rule Cons.IH)
  finally show ?case by simp
qed

lemma digit_le9: "isDigit c \<Longrightarrow> (of_char c :: nat) - 48 \<le> 9"
  unfolding isDigit_def by arith

lemma ParseUint_loop_digits:
  "list_all isDigit cs \<Longrightarrow> n < 2 ^ 64 \<Longrightarrow>
   ParseUint_loop n cs =
     (if foldl dec_step n cs < 2 ^ 64 then (foldl dec_step n cs, None)
      else (maxUint64, Some ErrRange))"
proof (induction cs arbitrary: n)
  case Nil
  then show ?case by simp
next
  case (Cons c cs)
  from Cons.prems have dc: "isDigit c" and dcs: "list_all isDigit cs" by simp_all
  let ?d = "(of_char c :: nat) - 48"
  have d9: "?d \<le> 9" using dc by (rule digit_le9)
  have dv: "digit_val c = Some ?d" using dc by (rule digit_val_digit)
  have step: "dec_step n c = n * 10 + ?d" by (simp add: dec_step_def)
  show ?case
  proof (cases "n \<ge> maxUint64 div 10 + 1")
    case True
    then have "2 ^ 64 \<le> dec_step n c" by (simp add: step maxUint64_def)
    also have "\<dots> \<le> foldl dec_step (dec_step n c) cs" by (rule foldl_dec_mono)
    finally have "\<not> foldl dec_step n (c # cs) < 2 ^ 64" by simp
    with True dv d9 show ?thesis by simp
  next
    case False
    then have n10: "n * 10 < 2 ^ 64" by (simp add: maxUint64_def)
    show ?thesis
    proof (cases "n * 10 + ?d < 2 ^ 64")
      case True
      have "ParseUint_loop n (c # cs) = ParseUint_loop (n * 10 + ?d) cs"
        using False dv d9 n10 True by (simp add: Let_def maxUint64_def)
      also have "\<dots> = (if foldl dec_step (n * 10 + ?d) cs < 2 ^ 64
                         then (foldl dec_step (n * 10 + ?d) cs, None)
                         else (maxUint64, Some ErrRange))"
        using dcs True by (rule Cons.IH)
      finally show ?thesis by (simp add: step)
    next
      case ov: False
      have "(n * 10 + ?d) mod 2 ^ 64 = n * 10 + ?d - 2 ^ 64"
        using ov n10 d9 by (simp add: mod_if)
      then have lt: "(n * 10 + ?d) mod 2 ^ 64 < n * 10" using ov d9 by simp
      have "2 ^ 64 \<le> dec_step n c" using ov by (simp add: step)
      also have "\<dots> \<le> foldl dec_step (dec_step n c) cs" by (rule foldl_dec_mono)
      finally have nf: "\<not> foldl dec_step n (c # cs) < 2 ^ 64" by simp
      have "ParseUint_loop n (c # cs) = (maxUint64, Some ErrRange)"
        using False dv d9 n10 lt by (simp add: Let_def)
      with nf show ?thesis by simp
    qed
  qed
qed

lemma foldl_dec_snoc: "foldl dec_step n (xs @ [c]) = dec_step (foldl dec_step n xs) c"
  by simp

lemma digits_nonempty: "digits n \<noteq> []"
  by (subst digits.simps) simp

lemma isDigit_char_of: "k < 10 \<Longrightarrow> isDigit (char_of (48 + (k::nat)))"
  by (simp add: isDigit_def)

lemma digits_all_digits: "list_all isDigit (digits n)"
proof (induction n rule: digits.induct)
  case (1 n)
  show ?case
  proof (cases "n < 10")
    case True
    then show ?thesis by (subst digits.simps) (simp add: isDigit_char_of)
  next
    case False
    have "isDigit (char_of (48 + n mod 10))" by (rule isDigit_char_of) simp
    with False 1 show ?thesis by (subst digits.simps) simp
  qed
qed

lemma dec_step_char_of: "k < 10 \<Longrightarrow> dec_step m (char_of (48 + (k::nat))) = m * 10 + k"
  by (simp add: dec_step_def)

lemma dec_val_digits: "dec_val (digits n) = n"
proof (induction n rule: digits.induct)
  case (1 n)
  show ?case
  proof (cases "n < 10")
    case True
    then show ?thesis by (subst digits.simps) (simp add: dec_val_def dec_step_char_of)
  next
    case False
    then have ih: "foldl dec_step 0 (digits (n div 10)) = n div 10"
      using 1 by (simp add: dec_val_def)
    have "dec_val (digits n) = dec_step (foldl dec_step 0 (digits (n div 10))) (char_of (48 + n mod 10))"
      using False by (subst digits.simps) (simp add: dec_val_def)
    also have "\<dots> = (n div 10) * 10 + n mod 10"
      by (simp add: ih dec_step_char_of)
    finally show ?thesis by simp
  qed
qed

lemma ParseUint_digits:
  assumes "s \<noteq> []" and "list_all isDigit s"
  shows "ParseUint s =
           (if dec_val s < 2 ^ 64 then (dec_val s, None) else (maxUint64, Some ErrRange))"
  using assms ParseUint_loop_digits [of s 0] by (simp add: ParseUint_def dec_val_def)

lemma isDigit_not_sign: "isDigit c \<Longrightarrow> c \<noteq> CHR ''+'' \<and> c \<noteq> CHR ''-''"
  by (auto simp: isDigit_def)

lemma int64_small: "n < 2 ^ 63 \<Longrightarrow> int64 (int n) = int n"
  by (simp add: int64_def)

lemma ParseInt_unsigned:
  assumes "s \<noteq> []" and "list_all isDigit s"
  shows "ParseInt s =
           (if dec_val s < 2 ^ 63 then (int (dec_val s), None) else (2 ^ 63 - 1, Some ErrRange))"
proof -
  from assms obtain c cs where s: "s = c # cs" and c: "isDigit c" by (cases s) auto
  from c have ns: "c \<noteq> CHR ''+''" "c \<noteq> CHR ''-''" using isDigit_not_sign by blast+
  have pu: "ParseUint (c # cs) =
           (if dec_val s < 2 ^ 64 then (dec_val s, None) else (maxUint64, Some ErrRange))"
    using ParseUint_digits [OF assms] by (simp add: s)
  show ?thesis
  proof (cases "dec_val s < 2 ^ 63")
    case True
    then have "dec_val s < 2 ^ 64" by simp
    with True pu ns show ?thesis
      by (simp add: ParseInt_def s int64_small)
  next
    case False
    with pu ns show ?thesis
      by (simp add: ParseInt_def s maxUint64_def)
  qed
qed

lemma ParseInt_plus:
  assumes "s \<noteq> []" and "list_all isDigit s"
  shows "ParseInt (CHR ''+'' # s) = ParseInt s"
proof -
  have pu: "ParseUint s =
           (if dec_val s < 2 ^ 64 then (dec_val s, None) else (maxUint64, Some ErrRange))"
    by (rule ParseUint_digits [OF assms])
  have "ParseInt (CHR ''+'' # s) =
          (if dec_val s < 2 ^ 63 then (int (dec_val s), None) else (2 ^ 63 - 1, Some ErrRange))"
  proof (cases "dec_val s < 2 ^ 63")
    case True
    then have "dec_val s < 2 ^ 64" by simp
    with True pu show ?thesis
      by (simp add: ParseInt_def int64_small)
  next
    case False
    with pu show ?thesis
      by (simp add: ParseInt_def maxUint64_def)
  qed
  then show ?thesis by (simp only: ParseInt_unsigned [OF assms])
qed

lemma ParseInt_FormatInt:
  assumes "0 \<le> i" and "i < 2 ^ 63"
  shows "ParseInt (FormatInt i) = (i, None)"
proof -
  have "dec_val (digits (nat i)) < 2 ^ 63" using assms by (simp add: dec_val_digits nat_less_iff)
  then show ?thesis
    using assms ParseInt_unsigned [OF digits_nonempty digits_all_digits, of "nat i"]
    by (simp add: FormatInt_def dec_val_digits)
qed


section \<open>The identifier of an item request\<close>

lemma TrimPrefix_movies_app: "TrimPrefix (''/movies/'' @ s) ''/movies/'' = s"
  by (simp add: TrimPrefix_def)

lemmas TrimPrefix_movies = TrimPrefix_movies_app [simplified]

lemma movies_item_invalid:
  "\<not> valid_id (path r) \<Longrightarrow> movies_item drv r db = invalid_id_outcome db"
  by (auto simp: movies_item_def valid_id_def item_id_def invalid_id_outcome_def Let_def
      split: prod.splits)

lemma movies_item_valid:
  "valid_id (path r) \<Longrightarrow> movies_item drv r db = item_switch drv r (item_id (path r)) db"
  by (auto simp: movies_item_def valid_id_def item_id_def Let_def split: prod.splits)

lemma item_switch_path: "item_switch drv (r\<lparr>path := p\<rparr>) i db = item_switch drv r i db"
  by (simp add: item_switch_def)

lemma invalid_id_outcome_simps:
  "status (resp (invalid_id_outcome db)) = 400"
  "trace (invalid_id_outcome db) = []"
  "db_after (invalid_id_outcome db) = db"
  by (simp_all add: invalid_id_outcome_def writeJSON_def)

lemma valid_id_digits:
  assumes "ds \<noteq> []" and "list_all isDigit ds"
  shows "valid_id (''/movies/'' @ ds) \<longleftrightarrow> 0 < dec_val ds \<and> dec_val ds < 2 ^ 63"
    and "dec_val ds < 2 ^ 63 \<Longrightarrow> item_id (''/movies/'' @ ds) = int (dec_val ds)"
  using ParseInt_unsigned [OF assms]
  by (simp_all add: valid_id_def item_id_def TrimPrefix_movies)

lemma valid_id_plus_digits:
  assumes "ds \<noteq> []" and "list_all isDigit ds"
  shows "valid_id (''/movies/+'' @ ds) \<longleftrightarrow> 0 < dec_val ds \<and> dec_val ds < 2 ^ 63"
    and "dec_val ds < 2 ^ 63 \<Longrightarrow> item_id (''/movies/+'' @ ds) = int (dec_val ds)"
proof -
  have eq: "TrimPrefix (''/movies/+'' @ ds) ''/movies/'' = CHR ''+'' # ds"
    by (simp add: TrimPrefix_movies)
  show "valid_id (''/movies/+'' @ ds) \<longleftrightarrow> 0 < dec_val ds \<and> dec_val ds < 2 ^ 63"
    using ParseInt_unsigned [OF assms]
    by (simp add: valid_id_def item_id_def eq [simplified] ParseInt_plus [OF assms])
  show "dec_val ds < 2 ^ 63 \<Longrightarrow> item_id (''/movies/+'' @ ds) = int (dec_val ds)"
    using ParseInt_unsigned [OF assms]
    by (simp add: item_id_def eq [simplified] ParseInt_plus [OF assms])
qed

text \<open>
  Claim C9.  The identifier of \<^verbatim>\<open>/movies/{id}\<close> is parsed as a signed 64-bit decimal integer.
  For a non-empty string of decimal digits \<open>ds\<close>: when its value is positive and below
  \<open>2 ^ 63\<close>, the segment \<^verbatim>\<open>+ds\<close> parses to that value and the request is handled as the one
  for \<^verbatim>\<open>ds\<close>, with that identifier; when its value exceeds \<open>2 ^ 63 - 1\<close> the parse ends in a
  range error, with or without the sign, and the answer is the 400 for an invalid identifier,
  with no SQL statement sent.
\<close>

theorem item_id_signed_decimal:
  assumes "ds \<noteq> []" and "list_all isDigit ds"
  shows "(0 < dec_val ds \<and> dec_val ds < 2 ^ 63 \<longrightarrow>
            ParseInt (CHR ''+'' # ds) = (int (dec_val ds), None)
          \<and> movies_item drv (r\<lparr>path := ''/movies/+'' @ ds\<rparr>) db
              = item_switch drv r (int (dec_val ds)) db
          \<and> movies_item drv (r\<lparr>path := ''/movies/+'' @ ds\<rparr>) db
              = movies_item drv (r\<lparr>path := ''/movies/'' @ ds\<rparr>) db)
       \<and> (2 ^ 63 \<le> dec_val ds \<longrightarrow>
            snd (ParseInt ds) = Some ErrRange
          \<and> snd (ParseInt (CHR ''+'' # ds)) = Some ErrRange
          \<and> movies_item drv (r\<lparr>path := ''/movies/'' @ ds\<rparr>) db = invalid_id_outcome db
          \<and> movies_item drv (r\<lparr>path := ''/movies/+'' @ ds\<rparr>) db = invalid_id_outcome db
          \<and> status (resp (movies_item drv (r\<lparr>path := ''/movies/'' @ ds\<rparr>) db)) = 400
          \<and> trace (movies_item drv (r\<lparr>path := ''/movies/'' @ ds\<rparr>) db) = [])"
proof (intro conjI impI)
  assume ok: "0 < dec_val ds \<and> dec_val ds < 2 ^ 63"
  show "ParseInt (CHR ''+'' # ds) = (int (dec_val ds), None)"
    using ok ParseInt_unsigned [OF assms] by (simp add: ParseInt_plus [OF assms])
  have v1: "valid_id (path (r\<lparr>path := ''/movies/+'' @ ds\<rparr>))"
    using ok valid_id_plus_digits(1) [OF assms] by simp
  have v2: "valid_id (path (r\<lparr>path := ''/movies/'' @ ds\<rparr>))"
    using ok valid_id_digits(1) [OF assms] by simp
  show a: "movies_item drv (r\<lparr>path := ''/movies/+'' @ ds\<rparr>) db
             = item_switch drv r (int (dec_val ds)) db"
    using ok movies_item_valid [OF v1] valid_id_plus_digits(2) [OF assms]
    by (simp add: item_switch_path)
  have b: "movies_item drv (r\<lparr>path := ''/movies/'' @ ds\<rparr>) db
             = item_switch drv r (int (dec_val ds)) db"
    using ok movies_item_valid [OF v2] valid_id_digits(2) [OF assms]
    by (simp add: item_switch_path)
  show "movies_item drv (r\<lparr>path := ''/movies/+'' @ ds\<rparr>) db
          = movies_item drv (r\<lparr>path := ''/movies/'' @ ds\<rparr>) db"
    by (simp only: a b)
next
  assume big: "2 ^ 63 \<le> dec_val ds"
  show r1: "snd (ParseInt ds) = Some ErrRange"
    using big ParseInt_unsigned [OF assms] by simp
  show "snd (ParseInt (CHR ''+'' # ds)) = Some ErrRange"
    using r1 by (simp add: ParseInt_plus [OF assms])
  have n1: "\<not> valid_id (path (r\<lparr>path := ''/movies/'' @ ds\<rparr>))"
    using big valid_id_digits(1) [OF assms] by simp
  have n2: "\<not> valid_id (path (r\<lparr>path := ''/movies/+'' @ ds\<rparr>))"
    using big valid_id_plus_digits(1) [OF assms] by simp
  show c: "movies_item drv (r\<lparr>path := ''/movies/'' @ ds\<rparr>) db = invalid_id_outcome db"
    by (rule movies_item_invalid [OF n1])
  show "movies_item drv (r\<lparr>path := ''/movies/+'' @ ds\<rparr>) db = invalid_id_outcome db"
    by (rule movies_item_invalid [OF n2])
  show "status (resp (movies_item drv (r\<lparr>path := ''/movies/'' @ ds\<rparr>) db)) = 400"
    by (simp only: c invalid_id_outcome_simps)
  show "trace (movies_item drv (r\<lparr>path := ''/movies/'' @ ds\<rparr>) db) = []"
    by (simp only: c invalid_id_outcome_simps)
qed

theorem item_id_signed_decimal_witness:
  "ParseInt ''+5'' = (5, None)
   \<and> trace (movies_item no_faults \<lparr>meth = ''GET'', path = ''/movies/+5'', body = Malformed\<rparr>
        empty_store) = [Sql (SelectById 5)]
   \<and> snd (ParseInt ''9223372036854775808'') = Some ErrRange
   \<and> status (resp (movies_item no_faults
        \<lparr>meth = ''GET'', path = ''/movies/9223372036854775808'', body = Malformed\<rparr> empty_store))
       = 400"
proof -
  let ?r = "\<lparr>meth = ''GET'', path = ''/movies/x'', body = Malformed\<rparr>"
  have d5: "''5'' \<noteq> []" "list_all isDigit ''5''"
    by (simp_all add: isDigit_def)
  have v5: "dec_val ''5'' = 5"
    by (simp add: dec_val_def dec_step_def)
  have "ParseInt ''+5'' = (5, None)
        \<and> movies_item no_faults (?r\<lparr>path := ''/movies/+'' @ ''5''\<rparr>) empty_store
            = item_switch no_faults ?r 5 empty_store"
    using item_id_signed_decimal [OF d5, of no_faults ?r empty_store] by (simp add: v5)
  then have small: "ParseInt ''+5'' = (5, None)
        \<and> trace (movies_item no_faults
              \<lparr>meth = ''GET'', path = ''/movies/+5'', body = Malformed\<rparr> empty_store)
            = [Sql (SelectById 5)]"
    by (simp add: item_switch_def db_select_by_id_def no_faults_def empty_store_def)
  have dbig: "''9223372036854775808'' \<noteq> []" "list_all isDigit ''9223372036854775808''"
    by (simp_all add: isDigit_def)
  have vbig: "dec_val ''9223372036854775808'' = 9223372036854775808"
    by (simp add: dec_val_def dec_step_def)
  have big: "snd (ParseInt ''9223372036854775808'') = Some ErrRange
        \<and> status (resp (movies_item no_faults
              \<lparr>meth = ''GET'', path = ''/movies/9223372036854775808'', body = Malformed\<rparr>
              empty_store)) = 400"
    using item_id_signed_decimal [OF dbig, of no_faults ?r empty_store]
    by (simp add: vbig invalid_id_outcome_simps)
  from small big show ?thesis by blast
qed


section \<open>Values at some requests\<close>

lemmas id_eval = valid_id_def item_id_def TrimPrefix_def ParseInt_def ParseUint_def
  digit_val_def lower_def Let_def maxUint64_def int64_def

lemma valid_id_1: "valid_id ''/movies/1''" and item_id_1: "item_id ''/movies/1'' = 1"
  by (simp_all add: id_eval)

lemma not_valid_id_abc: "\<not> valid_id ''/movies/abc''"
  by (simp add: id_eval)

lemma not_valid_id_minus1: "\<not> valid_id ''/movies/-1''"
  by (simp add: id_eval)

lemma valid_id_7: "valid_id ''/movies/7''" and item_id_7: "item_id ''/movies/7'' = 7"
  by (simp_all add: id_eval)

lemma TrimSpace_Dune: "TrimSpace (runes ''  Dune '') = runes ''Dune''"
  by (simp add: TrimSpace_def runes_def IsSpace_def)

lemma readJSON_title: "readJSON (DocRest (JObj [(runes ''title'', JStr t)]) rest) = Inr t"
  by (simp add: readJSON_def is_title_field_def)

lemma TrimSpace_blank: "TrimSpace (runes ''  '') = []"
  by (simp add: TrimSpace_def runes_def IsSpace_def)

lemma TrimSpace_Dune_id: "TrimSpace (runes ''Dune'') = runes ''Dune''"
  by (simp add: TrimSpace_def runes_def IsSpace_def)

lemma Dune_nonempty: "runes ''Dune'' \<noteq> []"
  by (simp add: runes_def)

lemma extra_unknown: "\<not> is_title_field (runes ''extra'')"
  by (simp add: is_title_field_def runes_def ascii_upper_def)

lemma Title_is_title_field: "is_title_field (runes ''Title'')"
  by (simp add: is_title_field_def runes_def ascii_upper_def)

lemma readJSON_Title: "readJSON (DocRest (JObj [(runes ''Title'', JStr t)]) rest) = Inr t"
  by (simp add: readJSON_def Title_is_title_field)

lemma db_insert_first:
  "db_insert no_faults t empty_store = (Inr 1, \<lparr>movies = [(1, t)], last_value = 1\<rparr>)"
  by (simp add: db_insert_def no_faults_def empty_store_def has_id_def)

section \<open>Requests with an invalid identifier\<close>

lemma runes_neq_invalid_id:
  "runes ''invalid json'' \<noteq> runes ''invalid id''"
  "runes ''title is required'' \<noteq> runes ''invalid id''"
  by (simp_all add: runes_def)

lemma item_switch_not_invalid_id:
  "resp (item_switch drv r i db) \<noteq> writeJSON 400 (errorMap (runes ''invalid id''))"
  by (auto simp: item_switch_def writeJSON_def WriteHeader_def errorMap_def Let_def
      runes_neq_invalid_id split: sum.splits dberr.splits prod.splits)

lemma item_switch_status_not_400:
  "meth r \<noteq> ''PUT'' \<Longrightarrow> status (resp (item_switch drv r i db)) \<noteq> 400"
  by (auto simp: item_switch_def writeJSON_def WriteHeader_def
      split: sum.splits dberr.splits prod.splits)

lemma item_switch_PUT:
  assumes "meth r = ''PUT''"
  shows "item_switch drv r i db =
     (case readJSON (body r) of
        Inl e \<Rightarrow>
          \<lparr>resp = writeJSON 400 (errorMap (runes ''invalid json'')), db_after = db,
           trace = [ReadBody]\<rparr>
      | Inr t0 \<Rightarrow>
          if TrimSpace t0 = [] then
            \<lparr>resp = writeJSON 400 (errorMap (runes ''title is required'')), db_after = db,
             trace = [ReadBody]\<rparr>
          else
            (case db_update drv (TrimSpace t0) i db of
               Inl e \<Rightarrow>
                 \<lparr>resp = writeJSON 500 (errorMap (err_text e)), db_after = db,
                  trace = [ReadBody, Sql (UpdateTitle (TrimSpace t0) i)]\<rparr>
             | Inr (aff, db') \<Rightarrow>
                 if aff = 0 then
                   \<lparr>resp = writeJSON 404 (errorMap (runes ''not found'')), db_after = db',
                    trace = [ReadBody, Sql (UpdateTitle (TrimSpace t0) i)]\<rparr>
                 else
                   \<lparr>resp = writeJSON 200 (VMovie \<lparr>ID = i, Title = TrimSpace t0\<rparr>),
                    db_after = db',
                    trace = [ReadBody, Sql (UpdateTitle (TrimSpace t0) i)]\<rparr>))"
  using assms by (simp add: item_switch_def Let_def split: sum.splits)

lemma item_switch_PUT_accepted:
  assumes "meth r = ''PUT''" and "readJSON (body r) = Inr t0" and "TrimSpace t0 \<noteq> []"
  shows "status (resp (item_switch drv r i db)) \<noteq> 400"
  using assms(2,3)
  by (simp add: item_switch_PUT [OF assms(1)] writeJSON_def split: sum.splits prod.splits)

text \<open>
  Claim C4, amended.  A request to \<^verbatim>\<open>/movies/{id}\<close> is answered by the 400 response
  \<^verbatim>\<open>invalid id\<close> exactly when the rest of the path does not parse as a positive integer, and
  then no SQL statement is sent and the body is not read.  With a valid identifier no method
  but \<^verbatim>\<open>PUT\<close> is answered 400, and a \<^verbatim>\<open>PUT\<close> is answered 400 exactly when its body is
  rejected: by the decoder (\<^verbatim>\<open>invalid json\<close>) or for a title empty after trimming
  (\<^verbatim>\<open>title is required\<close>), in both cases before any SQL statement.
\<close>

theorem item_invalid_id_400:
  "(\<not> valid_id (path r) \<longrightarrow>
       movies_item drv r db = invalid_id_outcome db
     \<and> status (resp (movies_item drv r db)) = 400
     \<and> payload (resp (movies_item drv r db))
         = Some (JObj [(runes ''error'', JStr (runes ''invalid id''))])
     \<and> trace (movies_item drv r db) = [])
   \<and> (valid_id (path r) \<longrightarrow>
         resp (movies_item drv r db) \<noteq> resp (invalid_id_outcome db))
   \<and> (valid_id (path r) \<and> meth r \<noteq> ''PUT'' \<longrightarrow>
         status (resp (movies_item drv r db)) \<noteq> 400)
   \<and> (valid_id (path r) \<and> meth r = ''PUT'' \<and> readJSON (body r) = Inl je \<longrightarrow>
         movies_item drv r db =
           \<lparr>resp = \<lparr>header = [(''Content-Type'', ''application/json'')], status = 400,
                    payload = Some (JObj [(runes ''error'', JStr (runes ''invalid json''))])\<rparr>,
            db_after = db, trace = [ReadBody]\<rparr>)
   \<and> (valid_id (path r) \<and> meth r = ''PUT'' \<and> readJSON (body r) = Inr t0
        \<and> TrimSpace t0 = [] \<longrightarrow>
         movies_item drv r db =
           \<lparr>resp = \<lparr>header = [(''Content-Type'', ''application/json'')], status = 400,
                    payload = Some (JObj [(runes ''error'', JStr (runes ''title is required''))])\<rparr>,
            db_after = db, trace = [ReadBody]\<rparr>)
   \<and> (valid_id (path r) \<and> meth r = ''PUT'' \<and> readJSON (body r) = Inr t0
        \<and> TrimSpace t0 \<noteq> [] \<longrightarrow>
         status (resp (movies_item drv r db)) \<noteq> 400)"
proof (intro conjI impI)
  assume n: "\<not> valid_id (path r)"
  show a: "movies_item drv r db = invalid_id_outcome db"
    by (rule movies_item_invalid [OF n])
  show "status (resp (movies_item drv r db)) = 400"
    by (simp only: a invalid_id_outcome_simps)
  show "payload (resp (movies_item drv r db))
          = Some (JObj [(runes ''error'', JStr (runes ''invalid id''))])"
    by (simp add: a invalid_id_outcome_def writeJSON_def errorMap_def)
  show "trace (movies_item drv r db) = []"
    by (simp only: a invalid_id_outcome_simps)
next
  assume v: "valid_id (path r)"
  show "resp (movies_item drv r db) \<noteq> resp (invalid_id_outcome db)"
    using item_switch_not_invalid_id [of drv r "item_id (path r)" db]
    by (simp add: movies_item_valid [OF v] invalid_id_outcome_def)
next
  assume "valid_id (path r) \<and> meth r \<noteq> ''PUT''"
  then show "status (resp (movies_item drv r db)) \<noteq> 400"
    using item_switch_status_not_400 [of r drv "item_id (path r)" db]
    by (simp add: movies_item_valid)
next
  assume a: "valid_id (path r) \<and> meth r = ''PUT'' \<and> readJSON (body r) = Inl je"
  then have v: "valid_id (path r)" and m: "meth r = ''PUT''" by blast+
  show "movies_item drv r db =
           \<lparr>resp = \<lparr>header = [(''Content-Type'', ''application/json'')], status = 400,
                    payload = Some (JObj [(runes ''error'', JStr (runes ''invalid json''))])\<rparr>,
            db_after = db, trace = [ReadBody]\<rparr>"
    using a
    by (simp add: movies_item_valid [OF v] item_switch_PUT [OF m] writeJSON_def errorMap_def)
next
  assume a: "valid_id (path r) \<and> meth r = ''PUT'' \<and> readJSON (body r) = Inr t0
        \<and> TrimSpace t0 = []"
  then have v: "valid_id (path r)" and m: "meth r = ''PUT''" by blast+
  show "movies_item drv r db =
           \<lparr>resp = \<lparr>header = [(''Content-Type'', ''application/json'')], status = 400,
                    payload = Some (JObj [(runes ''error'', JStr (runes ''title is required''))])\<rparr>,
            db_after = db, trace = [ReadBody]\<rparr>"
    using a
    by (simp add: movies_item_valid [OF v] item_switch_PUT [OF m] writeJSON_def errorMap_def)
next
  assume a: "valid_id (path r) \<and> meth r = ''PUT'' \<and> readJSON (body r) = Inr t0
        \<and> TrimSpace t0 \<noteq> []"
  then have v: "valid_id (path r)" by blast
  show "status (resp (movies_item drv r db)) \<noteq> 400"
    using a item_switch_PUT_accepted [of r t0 drv "item_id (path r)" db]
    by (simp add: movies_item_valid [OF v])
qed

theorem item_invalid_id_400_witness:
  "\<not> valid_id ''/movies/abc''
   \<and> status (resp (movies_item no_faults
         \<lparr>meth = ''GET'', path = ''/movies/abc'', body = Malformed\<rparr> empty_store)) = 400
   \<and> \<not> valid_id ''/movies/-1''
   \<and> status (resp (movies_item no_faults
         \<lparr>meth = ''DELETE'', path = ''/movies/-1'', body = Malformed\<rparr> empty_store)) = 400
   \<and> valid_id ''/movies/1''
   \<and> status (resp (movies_item no_faults
         \<lparr>meth = ''GET'', path = ''/movies/1'', body = Malformed\<rparr> empty_store)) \<noteq> 400
   \<and> status (resp (movies_item no_faults
         \<lparr>meth = ''PUT'', path = ''/movies/1'', body = Malformed\<rparr> empty_store)) = 400
   \<and> status (resp (movies_item no_faults
         \<lparr>meth = ''PUT'', path = ''/movies/1'',
          body = Doc (JObj [(runes ''title'', JStr (runes ''  ''))])\<rparr> empty_store)) = 400
   \<and> status (resp (movies_item no_faults
         \<lparr>meth = ''PUT'', path = ''/movies/1'',
          body = Doc (JObj [(runes ''title'', JStr (runes ''Dune''))])\<rparr> empty_store)) \<noteq> 400"
proof -
  let ?bad = "\<lparr>meth = ''PUT'', path = ''/movies/1'', body = Malformed\<rparr>"
  let ?blank = "\<lparr>meth = ''PUT'', path = ''/movies/1'',
          body = Doc (JObj [(runes ''title'', JStr (runes ''  ''))])\<rparr>"
  let ?dune = "\<lparr>meth = ''PUT'', path = ''/movies/1'',
          body = Doc (JObj [(runes ''title'', JStr (runes ''Dune''))])\<rparr>"
  have ids: "\<not> valid_id ''/movies/abc''
   \<and> status (resp (movies_item no_faults
         \<lparr>meth = ''GET'', path = ''/movies/abc'', body = Malformed\<rparr> empty_store)) = 400
   \<and> \<not> valid_id ''/movies/-1''
   \<and> status (resp (movies_item no_faults
         \<lparr>meth = ''DELETE'', path = ''/movies/-1'', body = Malformed\<rparr> empty_store)) = 400
   \<and> valid_id ''/movies/1''
   \<and> status (resp (movies_item no_faults
         \<lparr>meth = ''GET'', path = ''/movies/1'', body = Malformed\<rparr> empty_store)) \<noteq> 400"
    using item_invalid_id_400 [of "\<lparr>meth = ''GET'', path = ''/movies/abc'', body = Malformed\<rparr>"
            no_faults empty_store]
          item_invalid_id_400 [of "\<lparr>meth = ''DELETE'', path = ''/movies/-1'', body = Malformed\<rparr>"
            no_faults empty_store]
          item_invalid_id_400 [of "\<lparr>meth = ''GET'', path = ''/movies/1'', body = Malformed\<rparr>"
            no_faults empty_store]
    by (simp add: valid_id_1 not_valid_id_abc not_valid_id_minus1 invalid_id_outcome_simps)
  have h1: "valid_id (path ?bad) \<and> meth ?bad = ''PUT'' \<and> readJSON (body ?bad) = Inl SyntaxError"
    by (simp add: valid_id_1 readJSON_def)
  have p1: "status (resp (movies_item no_faults ?bad empty_store)) = 400"
    using item_invalid_id_400 [of ?bad no_faults empty_store SyntaxError] h1 by simp
  have h2: "valid_id (path ?blank) \<and> meth ?blank = ''PUT''
        \<and> readJSON (body ?blank) = Inr (runes ''  '') \<and> TrimSpace (runes ''  '') = []"
    by (simp add: valid_id_1 readJSON_title TrimSpace_blank)
  have p2: "status (resp (movies_item no_faults ?blank empty_store)) = 400"
    using item_invalid_id_400 [of ?blank no_faults empty_store _ "runes ''  ''"] h2 by simp
  have ne: "TrimSpace (runes ''Dune'') \<noteq> []"
    unfolding TrimSpace_Dune_id by (rule Dune_nonempty)
  have h3: "valid_id (path ?dune) \<and> meth ?dune = ''PUT''
        \<and> readJSON (body ?dune) = Inr (runes ''Dune'') \<and> TrimSpace (runes ''Dune'') \<noteq> []"
    using ne by (simp add: valid_id_1 readJSON_title)
  have p3: "status (resp (movies_item no_faults ?dune empty_store)) \<noteq> 400"
    using item_invalid_id_400 [of ?dune no_faults empty_store _ "runes ''Dune''"] h3 by simp
  from ids p1 p2 p3 show ?thesis by simp
qed

text \<open>
  Claim C4 as stated fails: a \<^verbatim>\<open>PUT /movies/1\<close> with the body \<^verbatim>\<open>{}\<close> is answered 400 although
  \<^verbatim>\<open>1\<close> parses as a positive integer.
\<close>

theorem put_valid_id_400_counterexample:
  "valid_id ''/movies/1''
   \<and> status (resp (movies_item no_faults
         \<lparr>meth = ''PUT'', path = ''/movies/1'', body = Doc (JObj [])\<rparr> empty_store)) = 400"
  by (simp add: valid_id_1 item_id_1 movies_item_valid item_switch_def readJSON_def TrimSpace_def
      writeJSON_def)

text \<open>
  Claim C10.  A \<^verbatim>\<open>PUT\<close> or \<^verbatim>\<open>DELETE\<close> on \<^verbatim>\<open>/movies/{id}\<close> whose identifier is not a positive
  integer is answered 400 with no effect at all: the body is not read, no SQL statement is
  sent, the table is unchanged, and the outcome is the same for every body and every
  behaviour of the database.
\<close>

theorem put_delete_invalid_id_no_effect:
  assumes "meth r = ''PUT'' \<or> meth r = ''DELETE''" and "\<not> valid_id (path r)"
  shows "status (resp (movies_item drv r db)) = 400
       \<and> trace (movies_item drv r db) = []
       \<and> db_after (movies_item drv r db) = db
       \<and> movies_item drv' (r\<lparr>body := b\<rparr>) db = movies_item drv r db"
proof -
  have a: "movies_item drv r db = invalid_id_outcome db"
    by (rule movies_item_invalid [OF assms(2)])
  have "\<not> valid_id (path (r\<lparr>body := b\<rparr>))" using assms(2) by simp
  then have b: "movies_item drv' (r\<lparr>body := b\<rparr>) db = invalid_id_outcome db"
    by (rule movies_item_invalid)
  show ?thesis by (simp only: a b invalid_id_outcome_simps simp_thms)
qed

theorem put_delete_invalid_id_no_effect_witness:
  "\<not> valid_id ''/movies/abc''
   \<and> status (resp (movies_item no_faults
        \<lparr>meth = ''PUT'', path = ''/movies/abc'',
         body = Doc (JObj [(runes ''title'', JStr (runes ''Dune''))])\<rparr>
        \<lparr>movies = [(1, runes ''Alien'')], last_value = 1\<rparr>)) = 400
   \<and> trace (movies_item no_faults
        \<lparr>meth = ''PUT'', path = ''/movies/abc'',
         body = Doc (JObj [(runes ''title'', JStr (runes ''Dune''))])\<rparr>
        \<lparr>movies = [(1, runes ''Alien'')], last_value = 1\<rparr>) = []
   \<and> db_after (movies_item no_faults
        \<lparr>meth = ''PUT'', path = ''/movies/abc'',
         body = Doc (JObj [(runes ''title'', JStr (runes ''Dune''))])\<rparr>
        \<lparr>movies = [(1, runes ''Alien'')], last_value = 1\<rparr>)
       = \<lparr>movies = [(1, runes ''Alien'')], last_value = 1\<rparr>"
  using put_delete_invalid_id_no_effect [of
          "\<lparr>meth = ''PUT'', path = ''/movies/abc'',
            body = Doc (JObj [(runes ''title'', JStr (runes ''Dune''))])\<rparr>"
          no_faults "\<lparr>movies = [(1, runes ''Alien'')], last_value = 1\<rparr>"]
  by (simp add: not_valid_id_abc invalid_id_outcome_simps)


section \<open>Requests that reach the table\<close>

lemma no_row_filter: "\<not> list_ex (has_id i) rows \<Longrightarrow> filter (has_id i) rows = []"
  by (simp add: list_ex_iff filter_empty_conv)

lemma no_row_map:
  "\<not> list_ex (has_id i) rows \<Longrightarrow>
   map (\<lambda>row. if has_id i row then (fst row, t) else row) rows = rows"
  by (induction rows) simp_all

lemma db_update_missing:
  assumes "\<not> list_ex (has_id i) (movies db)" and "stmt_err drv = None"
  shows "db_update drv t i db = Inr (0, db)"
  using assms by (simp add: db_update_def no_row_filter no_row_map)

lemma db_update_fault: "stmt_err drv = Some e \<Longrightarrow> db_update drv t i db = Inl (DriverErr e)"
  by (simp add: db_update_def)

text \<open>
  Claim C5.  A \<^verbatim>\<open>PUT /movies/{id}\<close> with a valid identifier and a title that is not empty
  after trimming, when no row has that identifier, leaves the table as it was (no row created,
  none modified) and, the \<^verbatim>\<open>UPDATE\<close> having run, is answered 404.
\<close>

theorem put_missing_id_404:
  assumes "meth r = ''PUT''" and "valid_id (path r)"
    and "readJSON (body r) = Inr t0" and "TrimSpace t0 \<noteq> []"
    and "\<not> list_ex (has_id (item_id (path r))) (movies db)"
  shows "db_after (movies_item drv r db) = db
       \<and> (stmt_err drv = None \<longrightarrow>
            resp (movies_item drv r db) = writeJSON 404 (errorMap (runes ''not found''))
          \<and> status (resp (movies_item drv r db)) = 404)"
proof (cases "stmt_err drv")
  case None
  then show ?thesis
    using assms
    by (simp add: movies_item_valid item_switch_def db_update_missing writeJSON_def)
next
  case (Some e)
  then show ?thesis
    using assms
    by (simp add: movies_item_valid item_switch_def db_update_fault)
qed

theorem put_missing_id_404_witness:
  "valid_id ''/movies/7''
   \<and> readJSON (Doc (JObj [(runes ''title'', JStr (runes ''  Dune ''))])) = Inr (runes ''  Dune '')
   \<and> TrimSpace (runes ''  Dune '') \<noteq> []
   \<and> \<not> list_ex (has_id 7) [(1, runes ''Alien'')]
   \<and> status (resp (movies_item no_faults
        \<lparr>meth = ''PUT'', path = ''/movies/7'',
         body = Doc (JObj [(runes ''title'', JStr (runes ''  Dune ''))])\<rparr>
        \<lparr>movies = [(1, runes ''Alien'')], last_value = 1\<rparr>)) = 404
   \<and> db_after (movies_item no_faults
        \<lparr>meth = ''PUT'', path = ''/movies/7'',
         body = Doc (JObj [(runes ''title'', JStr (runes ''  Dune ''))])\<rparr>
        \<lparr>movies = [(1, runes ''Alien'')], last_value = 1\<rparr>)
       = \<lparr>movies = [(1, runes ''Alien'')], last_value = 1\<rparr>"
proof -
  let ?r = "\<lparr>meth = ''PUT'', path = ''/movies/7'',
         body = Doc (JObj [(runes ''title'', JStr (runes ''  Dune ''))])\<rparr>"
  let ?db = "\<lparr>movies = [(1, runes ''Alien'')], last_value = 1\<rparr>"
  have h1: "meth ?r = ''PUT''" by simp
  have h2: "valid_id (path ?r)" by (simp add: valid_id_7)
  have h3: "readJSON (body ?r) = Inr (runes ''  Dune '')" by (simp add: readJSON_title)
  have h4: "TrimSpace (runes ''  Dune '') \<noteq> []"
    unfolding TrimSpace_Dune by (simp add: runes_def)
  have h5: "\<not> list_ex (has_id (item_id (path ?r))) (movies ?db)"
    by (simp add: item_id_7 has_id_def)
  have h6: "stmt_err no_faults = None" by (simp add: no_faults_def)
  note w = put_missing_id_404 [OF h1 h2 h3 h4 h5, of no_faults]
  from w h6 have "status (resp (movies_item no_faults ?r ?db)) = 404"
    and "db_after (movies_item no_faults ?r ?db) = ?db" by blast+
  with h2 h3 h4 h5 show ?thesis by (simp add: item_id_7)
qed

lemma db_insert_fresh:
  assumes "stmt_err drv = None" and "last_value db < 2147483647"
    and "\<not> list_ex (has_id (int (last_value db) + 1)) (movies db)"
  shows "db_insert drv t db =
           (Inr (int (last_value db) + 1),
            db\<lparr>movies := movies db @ [(int (last_value db) + 1, t)],
               last_value := last_value db + 1\<rparr>)"
  using assms by (simp add: db_insert_def Let_def)

lemma db_select_fresh:
  assumes "stmt_err drv = None" and "\<not> list_ex (has_id i) rows"
  shows "db_select_by_id drv i (db\<lparr>movies := rows @ [(i, t)], last_value := n\<rparr>) = Inr (i, t)"
  using assms by (simp add: db_select_by_id_def no_row_filter has_id_def)

lemma valid_id_FormatInt:
  assumes "0 < i" and "i < 2 ^ 63"
  shows "valid_id (''/movies/'' @ FormatInt i)" and "item_id (''/movies/'' @ FormatInt i) = i"
  using assms ParseInt_FormatInt [of i]
  by (simp_all add: valid_id_def item_id_def TrimPrefix_movies)

text \<open>
  Claim C1.  For every title \<open>t\<close> that is not empty after trimming, on a table whose sequence
  can still hand out a fresh identifier and with both statements running,
  \<^verbatim>\<open>POST /movies\<close> with the body \<^verbatim>\<open>{"title": t}\<close> is answered 201 with the new identifier and
  the trimmed title, and \<^verbatim>\<open>GET /movies/{id}\<close> with that identifier, written in decimal, is
  then answered 200 with a JSON object whose \<^verbatim>\<open>id\<close> is that identifier and whose
  \<^verbatim>\<open>title\<close> is the trimmed \<open>t\<close>.
\<close>

theorem post_then_get_roundtrip:
  assumes "TrimSpace t \<noteq> []"
    and "stmt_err drv = None" and "stmt_err drv' = None"
    and "last_value db < 2147483647"
    and "\<not> list_ex (has_id (int (last_value db) + 1)) (movies db)"
  shows "resp (movies_collection drv
            \<lparr>meth = ''POST'', path = ''/movies'',
             body = Doc (JObj [(runes ''title'', JStr t)])\<rparr> db)
          = \<lparr>header = [(''Content-Type'', ''application/json'')], status = 201,
             payload = Some (JObj [(runes ''id'', JNum (int (last_value db) + 1)),
                                    (runes ''title'', JStr (TrimSpace t))])\<rparr>
       \<and> resp (movies_item drv'
            \<lparr>meth = ''GET'', path = ''/movies/'' @ FormatInt (int (last_value db) + 1), body = b\<rparr>
            (db_after (movies_collection drv
               \<lparr>meth = ''POST'', path = ''/movies'',
                body = Doc (JObj [(runes ''title'', JStr t)])\<rparr> db)))
          = \<lparr>header = [(''Content-Type'', ''application/json'')], status = 200,
             payload = Some (JObj [(runes ''id'', JNum (int (last_value db) + 1)),
                                    (runes ''title'', JStr (TrimSpace t))])\<rparr>"
proof -
  let ?i = "int (last_value db) + 1"
  let ?post = "movies_collection drv
            \<lparr>meth = ''POST'', path = ''/movies'',
             body = Doc (JObj [(runes ''title'', JStr t)])\<rparr> db"
  let ?db' = "db\<lparr>movies := movies db @ [(?i, TrimSpace t)], last_value := last_value db + 1\<rparr>"
  have post: "?post = \<lparr>resp = writeJSON 201 (VMovie \<lparr>ID = ?i, Title = TrimSpace t\<rparr>),
                        db_after = ?db', trace = [ReadBody, Sql (InsertTitle (TrimSpace t))]\<rparr>"
    using assms(1) db_insert_fresh [OF assms(2,4,5), of "TrimSpace t"]
    by (simp add: movies_collection_def readJSON_title Let_def)
  have pos: "0 < ?i" by simp
  have small: "?i < 2 ^ 63" using assms(4) by simp
  let ?get = "\<lparr>meth = ''GET'', path = ''/movies/'' @ FormatInt ?i, body = b\<rparr>"
  have v: "valid_id (path ?get)" using valid_id_FormatInt(1) [OF pos small] by simp
  have iid: "item_id (path ?get) = ?i" using valid_id_FormatInt(2) [OF pos small] by simp
  have sel: "db_select_by_id drv' ?i ?db' = Inr (?i, TrimSpace t)"
    by (rule db_select_fresh [OF assms(3,5)])
  have get: "resp (movies_item drv' ?get ?db')
               = writeJSON 200 (VMovie \<lparr>ID = ?i, Title = TrimSpace t\<rparr>)"
    unfolding movies_item_valid [OF v] iid item_switch_def sel
    by simp
  show ?thesis
    unfolding post using get by (simp add: writeJSON_def encode_movie_def)
qed

theorem post_then_get_roundtrip_witness:
  "TrimSpace (runes ''  Dune '') = runes ''Dune''
   \<and> resp (movies_collection no_faults
        \<lparr>meth = ''POST'', path = ''/movies'',
         body = Doc (JObj [(runes ''title'', JStr (runes ''  Dune ''))])\<rparr> empty_store)
       = \<lparr>header = [(''Content-Type'', ''application/json'')], status = 201,
          payload = Some (JObj [(runes ''id'', JNum 1), (runes ''title'', JStr (runes ''Dune''))])\<rparr>
   \<and> resp (movies_item no_faults
        \<lparr>meth = ''GET'', path = ''/movies/1'', body = Malformed\<rparr>
        (db_after (movies_collection no_faults
           \<lparr>meth = ''POST'', path = ''/movies'',
            body = Doc (JObj [(runes ''title'', JStr (runes ''  Dune ''))])\<rparr> empty_store)))
       = \<lparr>header = [(''Content-Type'', ''application/json'')], status = 200,
          payload = Some (JObj [(runes ''id'', JNum 1), (runes ''title'', JStr (runes ''Dune''))])\<rparr>"
proof -
  have f: "FormatInt 1 = ''1''" by code_simp
  have ne: "TrimSpace (runes ''  Dune '') \<noteq> []"
    unfolding TrimSpace_Dune by (rule Dune_nonempty)
  show ?thesis
    using post_then_get_roundtrip [of "runes ''  Dune ''" no_faults no_faults empty_store Malformed, OF ne]
    by (simp add: f TrimSpace_Dune no_faults_def empty_store_def)
qed

text \<open>
  Claim C3 does not hold of the code: on an empty table \<^verbatim>\<open>GET /movies\<close> is answered 200 with
  the body \<^verbatim>\<open>null\<close>, since \<^verbatim>\<open>out\<close> is declared without a value and nothing is appended to it.
\<close>

theorem list_empty_table_is_null:
  "resp (movies_collection no_faults \<lparr>meth = ''GET'', path = ''/movies'', body = Malformed\<rparr>
     empty_store)
   = \<lparr>header = [(''Content-Type'', ''application/json'')], status = 200, payload = Some JNull\<rparr>
   \<and> JNull \<noteq> JArr []"
  by (simp add: movies_collection_def db_select_all_def no_faults_def empty_store_def
      writeJSON_def)


section \<open>Creating a movie\<close>

lemma decode_object_keeps_error: "fst (decode_object kvs (Some e, t)) = Some e"
proof (induction kvs arbitrary: t)
  case Nil
  show ?case by simp
next
  case (Cons kv kvs)
  obtain k v where kv: "kv = (k, v)" by (cases kv)
  show ?case by (cases v) (simp_all add: kv Cons.IH)
qed

lemma saveError_Some: "\<exists>e'. saveError err e = Some e'"
  by (cases err) simp_all

lemma decode_object_unknown:
  "list_ex (\<lambda>kv. \<not> is_title_field (fst kv)) kvs \<Longrightarrow> fst (decode_object kvs (err, t)) \<noteq> None"
proof (induction kvs arbitrary: err t)
  case Nil
  then show ?case by simp
next
  case (Cons kv kvs)
  obtain k v where kv: "kv = (k, v)" by (cases kv)
  show ?case
  proof (cases "is_title_field k")
    case True
    with Cons.prems kv have rest: "list_ex (\<lambda>kv. \<not> is_title_field (fst kv)) kvs" by simp
    show ?thesis using True by (cases v) (simp_all add: kv Cons.IH [OF rest])
  next
    case False
    obtain e' where "saveError err (UnknownField k) = Some e'"
      using saveError_Some by blast
    with False show ?thesis by (simp add: kv decode_object_keeps_error)
  qed
qed

lemma readJSON_rejects:
  assumes "b = Malformed \<or> has_unknown_field b"
  shows "\<exists>e. readJSON b = Inl e"
proof (cases b)
  case Malformed
  then show ?thesis by (simp add: readJSON_def)
next
  case (DocRest j rest)
  with assms have u: "has_unknown_field (DocRest j rest)" by simp
  then obtain kvs where j: "j = JObj kvs" and ex: "list_ex (\<lambda>kv. \<not> is_title_field (fst kv)) kvs"
    by (cases j) (simp_all add: has_unknown_field_def)
  obtain err t where d: "decode_object kvs (None, []) = (err, t)"
    by (cases "decode_object kvs (None, [])")
  with decode_object_unknown [OF ex, of None "[]"] obtain e where "err = Some e" by auto
  with d show ?thesis by (simp add: DocRest j readJSON_def)
qed

lemma decode_object_accepts:
  "\<not> list_ex rejected_member kvs \<Longrightarrow> fst (decode_object kvs (None, t)) = None"
proof (induction kvs arbitrary: t)
  case Nil
  show ?case by simp
next
  case (Cons kv kvs)
  obtain k v where kv: "kv = (k, v)" by (cases kv)
  from Cons.prems have rest: "\<not> list_ex rejected_member kvs"
    and this_one: "\<not> rejected_member (k, v)" by (simp_all add: kv)
  from this_one have k: "is_title_field k" by (simp add: rejected_member_def)
  from this_one show ?case
    by (cases v) (simp_all add: kv k rejected_member_def Cons.IH [OF rest])
qed

lemma decode_object_refuses:
  "list_ex rejected_member kvs \<Longrightarrow> fst (decode_object kvs (err, t)) \<noteq> None"
proof (induction kvs arbitrary: err t)
  case Nil
  then show ?case by simp
next
  case (Cons kv kvs)
  obtain k v where kv: "kv = (k, v)" by (cases kv)
  obtain e1 where e1: "saveError err UnmarshalTypeError = Some e1"
    using saveError_Some by blast
  obtain e2 where e2: "saveError err (UnknownField k) = Some e2"
    using saveError_Some by blast
  show ?case
  proof (cases "rejected_member (k, v)")
    case True
    then show ?thesis
      by (cases v) (simp_all add: kv rejected_member_def e1 e2 decode_object_keeps_error)
  next
    case False
    with Cons.prems kv have rest: "list_ex rejected_member kvs" by simp
    from False have k: "is_title_field k" by (simp add: rejected_member_def)
    from False show ?thesis
      by (cases v) (simp_all add: kv k rejected_member_def Cons.IH [OF rest])
  qed
qed

lemma readJSON_error_iff:
  "(\<exists>e. readJSON (DocRest v rest) = Inl e) \<longleftrightarrow> rejected_value v"
proof (cases v)
  case (JObj kvs)
  obtain err t where d: "decode_object kvs (None, []) = (err, t)"
    by (cases "decode_object kvs (None, [])")
  show ?thesis
  proof (cases "list_ex rejected_member kvs")
    case True
    with decode_object_refuses [OF True, of None "[]"] d obtain e where "err = Some e" by auto
    with d True show ?thesis by (simp add: JObj readJSON_def rejected_value_def)
  next
    case False
    with decode_object_accepts [OF False, of "[]"] d have "err = None" by simp
    with d False show ?thesis by (simp add: JObj readJSON_def rejected_value_def)
  qed
qed (simp_all add: readJSON_def rejected_value_def)

lemma readJSON_ignores_rest: "readJSON (DocRest v rest) = readJSON (DocRest v [])"
  by (cases v) (simp_all add: readJSON_def)

lemma db_insert_Inr:
  assumes "fst (db_insert drv t db) = Inr i"
  shows "i = int (last_value db) + 1"
    and "snd (db_insert drv t db) =
           db\<lparr>movies := movies db @ [(i, t)], last_value := last_value db + 1\<rparr>"
  using assms by (auto simp: db_insert_def Let_def split: option.splits if_splits)

lemma db_insert_Inl:
  assumes "fst (db_insert drv t db) = Inl e"
  shows "movies (snd (db_insert drv t db)) = movies db"
  using assms by (auto simp: db_insert_def Let_def split: option.splits if_splits)

lemma movies_collection_POST:
  assumes "meth r = ''POST''"
  shows "movies_collection drv r db =
     (case readJSON (body r) of
        Inl e \<Rightarrow>
          \<lparr>resp = writeJSON 400 (errorMap (runes ''invalid json'')), db_after = db,
           trace = [ReadBody]\<rparr>
      | Inr t0 \<Rightarrow>
          if TrimSpace t0 = [] then
            \<lparr>resp = writeJSON 400 (errorMap (runes ''title is required'')), db_after = db,
             trace = [ReadBody]\<rparr>
          else
            \<lparr>resp = (case fst (db_insert drv (TrimSpace t0) db) of
                       Inl e \<Rightarrow> writeJSON 500 (errorMap (err_text e))
                     | Inr i \<Rightarrow> writeJSON 201 (VMovie \<lparr>ID = i, Title = TrimSpace t0\<rparr>)),
             db_after = snd (db_insert drv (TrimSpace t0) db),
             trace = [ReadBody, Sql (InsertTitle (TrimSpace t0))]\<rparr>)"
  using assms
  by (auto simp: movies_collection_def Let_def split: sum.splits prod.splits)

text \<open>
  Claim C2, amended.  For every \<^verbatim>\<open>POST /movies\<close>: a body with no complete JSON value at its
  head, or whose first value has a member other than \<^verbatim>\<open>title\<close> in some letter case, is
  answered 400, and so is every first value that cannot be stored (the decoder reports an
  error exactly for those); what follows the first value in the body changes nothing.  A body
  that decodes to a title empty after trimming is answered 400.  Otherwise the row is
  inserted and the answer is 201 with a JSON object holding the identifier given by the
  sequence and the trimmed title, or 500 when the insert fails, the rows being then as
  before.
\<close>

theorem post_movies_cases:
  assumes "meth r = ''POST''"
  shows "(body r = Malformed \<or> has_unknown_field (body r) \<longrightarrow>
            movies_collection drv r db =
              \<lparr>resp = \<lparr>header = [(''Content-Type'', ''application/json'')], status = 400,
                       payload = Some (JObj [(runes ''error'', JStr (runes ''invalid json''))])\<rparr>,
               db_after = db, trace = [ReadBody]\<rparr>)
       \<and> (body r = DocRest v rest \<longrightarrow>
            ((\<exists>e. readJSON (body r) = Inl e) \<longleftrightarrow> rejected_value v)
          \<and> movies_collection drv r db = movies_collection drv (r\<lparr>body := DocRest v []\<rparr>) db)
       \<and> (readJSON (body r) = Inl je \<longrightarrow>
            movies_collection drv r db =
              \<lparr>resp = \<lparr>header = [(''Content-Type'', ''application/json'')], status = 400,
                       payload = Some (JObj [(runes ''error'', JStr (runes ''invalid json''))])\<rparr>,
               db_after = db, trace = [ReadBody]\<rparr>)
       \<and> (readJSON (body r) = Inr t0 \<and> TrimSpace t0 = [] \<longrightarrow>
            movies_collection drv r db =
              \<lparr>resp = \<lparr>header = [(''Content-Type'', ''application/json'')], status = 400,
                       payload = Some (JObj [(runes ''error'', JStr (runes ''title is required''))])\<rparr>,
               db_after = db, trace = [ReadBody]\<rparr>)
       \<and> (readJSON (body r) = Inr t0 \<and> TrimSpace t0 \<noteq> []
            \<and> fst (db_insert drv (TrimSpace t0) db) = Inr i \<longrightarrow>
            resp (movies_collection drv r db)
              = \<lparr>header = [(''Content-Type'', ''application/json'')], status = 201,
                 payload = Some (JObj [(runes ''id'', JNum i),
                                        (runes ''title'', JStr (TrimSpace t0))])\<rparr>
          \<and> i = int (last_value db) + 1
          \<and> movies (db_after (movies_collection drv r db)) = movies db @ [(i, TrimSpace t0)])
       \<and> (readJSON (body r) = Inr t0 \<and> TrimSpace t0 \<noteq> []
            \<and> fst (db_insert drv (TrimSpace t0) db) = Inl e \<longrightarrow>
            resp (movies_collection drv r db)
              = \<lparr>header = [(''Content-Type'', ''application/json'')], status = 500,
                 payload = Some (JObj [(runes ''error'', JStr (err_text e))])\<rparr>
          \<and> movies (db_after (movies_collection drv r db)) = movies db)"
proof (intro conjI impI)
  assume "body r = Malformed \<or> has_unknown_field (body r)"
  then obtain e0 where "readJSON (body r) = Inl e0" using readJSON_rejects by blast
  then show "movies_collection drv r db =
              \<lparr>resp = \<lparr>header = [(''Content-Type'', ''application/json'')], status = 400,
                       payload = Some (JObj [(runes ''error'', JStr (runes ''invalid json''))])\<rparr>,
               db_after = db, trace = [ReadBody]\<rparr>"
    by (simp add: movies_collection_POST [OF assms] writeJSON_def errorMap_def)
next
  assume b: "body r = DocRest v rest"
  show "(\<exists>e. readJSON (body r) = Inl e) \<longleftrightarrow> rejected_value v"
    unfolding b by (rule readJSON_error_iff)
  have m: "meth (r\<lparr>body := DocRest v []\<rparr>) = ''POST''" using assms by simp
  show "movies_collection drv r db = movies_collection drv (r\<lparr>body := DocRest v []\<rparr>) db"
    unfolding movies_collection_POST [OF assms] movies_collection_POST [OF m]
    by (simp add: b readJSON_ignores_rest [of v rest])
next
  assume a: "readJSON (body r) = Inl je"
  show "movies_collection drv r db =
              \<lparr>resp = \<lparr>header = [(''Content-Type'', ''application/json'')], status = 400,
                       payload = Some (JObj [(runes ''error'', JStr (runes ''invalid json''))])\<rparr>,
               db_after = db, trace = [ReadBody]\<rparr>"
    by (simp add: movies_collection_POST [OF assms] a writeJSON_def errorMap_def)
next
  assume "readJSON (body r) = Inr t0 \<and> TrimSpace t0 = []"
  then show "movies_collection drv r db =
              \<lparr>resp = \<lparr>header = [(''Content-Type'', ''application/json'')], status = 400,
                       payload = Some (JObj [(runes ''error'', JStr (runes ''title is required''))])\<rparr>,
               db_after = db, trace = [ReadBody]\<rparr>"
    by (simp add: movies_collection_POST [OF assms] writeJSON_def errorMap_def)
next
  assume a: "readJSON (body r) = Inr t0 \<and> TrimSpace t0 \<noteq> []
            \<and> fst (db_insert drv (TrimSpace t0) db) = Inr i"
  then have ins: "fst (db_insert drv (TrimSpace t0) db) = Inr i" by blast
  show "resp (movies_collection drv r db)
          = \<lparr>header = [(''Content-Type'', ''application/json'')], status = 201,
             payload = Some (JObj [(runes ''id'', JNum i),
                                    (runes ''title'', JStr (TrimSpace t0))])\<rparr>"
    using a by (simp add: movies_collection_POST [OF assms] writeJSON_def encode_movie_def)
  show "i = int (last_value db) + 1"
    by (rule db_insert_Inr(1) [OF ins])
  show "movies (db_after (movies_collection drv r db)) = movies db @ [(i, TrimSpace t0)]"
    using a by (simp add: movies_collection_POST [OF assms] db_insert_Inr(2) [OF ins])
next
  assume a: "readJSON (body r) = Inr t0 \<and> TrimSpace t0 \<noteq> []
            \<and> fst (db_insert drv (TrimSpace t0) db) = Inl e"
  then have ins: "fst (db_insert drv (TrimSpace t0) db) = Inl e" by blast
  show "resp (movies_collection drv r db)
          = \<lparr>header = [(''Content-Type'', ''application/json'')], status = 500,
             payload = Some (JObj [(runes ''error'', JStr (err_text e))])\<rparr>"
    using a by (simp add: movies_collection_POST [OF assms] writeJSON_def errorMap_def)
  show "movies (db_after (movies_collection drv r db)) = movies db"
    using a by (simp add: movies_collection_POST [OF assms] db_insert_Inl [OF ins])
qed

theorem post_movies_cases_witness:
  "has_unknown_field (Doc (JObj [(runes ''title'', JStr (runes ''Dune'')), (runes ''extra'', JNum 1)]))
   \<and> status (resp (movies_collection no_faults
        \<lparr>meth = ''POST'', path = ''/movies'',
         body = Doc (JObj [(runes ''title'', JStr (runes ''Dune'')), (runes ''extra'', JNum 1)])\<rparr>
        empty_store)) = 400
   \<and> status (resp (movies_collection no_faults
        \<lparr>meth = ''POST'', path = ''/movies'',
         body = Doc (JObj [(runes ''title'', JStr (runes ''  ''))])\<rparr> empty_store)) = 400
   \<and> resp (movies_collection no_faults
        \<lparr>meth = ''POST'', path = ''/movies'',
         body = Doc (JObj [(runes ''title'', JStr (runes ''Dune''))])\<rparr> empty_store)
       = \<lparr>header = [(''Content-Type'', ''application/json'')], status = 201,
          payload = Some (JObj [(runes ''id'', JNum 1), (runes ''title'', JStr (runes ''Dune''))])\<rparr>
   \<and> movies (db_after (movies_collection no_faults
        \<lparr>meth = ''POST'', path = ''/movies'',
         body = Doc (JObj [(runes ''title'', JStr (runes ''Dune''))])\<rparr> empty_store))
       = [(1, runes ''Dune'')]
   \<and> status (resp (movies_collection no_faults
        \<lparr>meth = ''POST'', path = ''/movies'',
         body = DocRest (JObj [(runes ''title'', JStr (runes ''Dune''))]) '']]''\<rparr> empty_store))
       = 201
   \<and> status (resp (movies_collection \<lparr>stmt_err = Some (runes ''connection refused''),
                                          scan_err = (\<lambda>k. None)\<rparr>
        \<lparr>meth = ''POST'', path = ''/movies'',
         body = Doc (JObj [(runes ''title'', JStr (runes ''Dune''))])\<rparr> empty_store)) = 500"
proof -
  let ?extra = "\<lparr>meth = ''POST'', path = ''/movies'',
         body = Doc (JObj [(runes ''title'', JStr (runes ''Dune'')), (runes ''extra'', JNum 1)])\<rparr>"
  let ?blank = "\<lparr>meth = ''POST'', path = ''/movies'',
         body = Doc (JObj [(runes ''title'', JStr (runes ''  ''))])\<rparr>"
  let ?dune = "\<lparr>meth = ''POST'', path = ''/movies'',
         body = Doc (JObj [(runes ''title'', JStr (runes ''Dune''))])\<rparr>"
  let ?tail = "\<lparr>meth = ''POST'', path = ''/movies'',
         body = DocRest (JObj [(runes ''title'', JStr (runes ''Dune''))]) '']]''\<rparr>"
  let ?down = "\<lparr>stmt_err = Some (runes ''connection refused''), scan_err = (\<lambda>k. None)\<rparr>"
  have u: "has_unknown_field (body ?extra)"
    by (simp add: has_unknown_field_def extra_unknown)
  have c1: "status (resp (movies_collection no_faults ?extra empty_store)) = 400"
    using post_movies_cases [of ?extra no_faults empty_store] u by simp
  have b: "readJSON (body ?blank) = Inr (runes ''  '') \<and> TrimSpace (runes ''  '') = []"
    by (simp add: readJSON_title TrimSpace_blank)
  have c2: "status (resp (movies_collection no_faults ?blank empty_store)) = 400"
    using post_movies_cases [of ?blank no_faults empty_store _ _ _ "runes ''  ''"] b
    by simp
  have d: "readJSON (body ?dune) = Inr (runes ''Dune'') \<and> TrimSpace (runes ''Dune'') \<noteq> []
        \<and> fst (db_insert no_faults (TrimSpace (runes ''Dune'')) empty_store) = Inr 1"
    by (simp add: readJSON_title TrimSpace_Dune_id Dune_nonempty db_insert_first)
  have c3: "resp (movies_collection no_faults ?dune empty_store)
              = \<lparr>header = [(''Content-Type'', ''application/json'')], status = 201,
                 payload = Some (JObj [(runes ''id'', JNum 1),
                                        (runes ''title'', JStr (runes ''Dune''))])\<rparr>
          \<and> movies (db_after (movies_collection no_faults ?dune empty_store))
              = [(1, runes ''Dune'')]"
    using post_movies_cases [of ?dune no_faults empty_store _ _ _ "runes ''Dune''" 1] d
    by (simp add: TrimSpace_Dune_id empty_store_def)
  have "movies_collection no_faults ?tail empty_store
          = movies_collection no_faults (?tail\<lparr>body := DocRest (JObj [(runes ''title'', JStr (runes ''Dune''))]) []\<rparr>) empty_store"
    using post_movies_cases [of ?tail no_faults empty_store
            "JObj [(runes ''title'', JStr (runes ''Dune''))]" "'']]''"]
    by simp
  then have c5: "status (resp (movies_collection no_faults ?tail empty_store)) = 201"
    using c3 by simp
  have f: "readJSON (body ?dune) = Inr (runes ''Dune'') \<and> TrimSpace (runes ''Dune'') \<noteq> []
        \<and> fst (db_insert ?down (TrimSpace (runes ''Dune'')) empty_store)
            = Inl (DriverErr (runes ''connection refused''))"
    by (simp add: readJSON_title TrimSpace_Dune_id Dune_nonempty db_insert_def)
  have c4: "status (resp (movies_collection ?down ?dune empty_store)) = 500"
    using post_movies_cases [of ?dune ?down empty_store _ _ _ "runes ''Dune''" _
            "DriverErr (runes ''connection refused'')"] f
    by simp
  from u c1 c2 c3 c4 c5 show ?thesis by simp
qed

text \<open>
  Claim C2 as stated fails twice.  The body \<^verbatim>\<open>{"Title": "Dune"}\<close> has a member other than
  \<^verbatim>\<open>title\<close>, yet the decoder binds it to the field, a row is inserted and the answer is 201.
  The body \<^verbatim>\<open>{"title": "Dune"}]]\<close> is malformed JSON, yet the decoder stops after the object,
  a row is inserted and the answer is 201.
\<close>

theorem post_capitalised_field_counterexample:
  "has_other_field (Doc (JObj [(runes ''Title'', JStr (runes ''Dune''))]))
   \<and> status (resp (movies_collection no_faults
        \<lparr>meth = ''POST'', path = ''/movies'',
         body = Doc (JObj [(runes ''Title'', JStr (runes ''Dune''))])\<rparr> empty_store)) = 201
   \<and> movies (db_after (movies_collection no_faults
        \<lparr>meth = ''POST'', path = ''/movies'',
         body = Doc (JObj [(runes ''Title'', JStr (runes ''Dune''))])\<rparr> empty_store))
       = [(1, runes ''Dune'')]
   \<and> malformed_json (DocRest (JObj [(runes ''title'', JStr (runes ''Dune''))]) '']]'')
   \<and> status (resp (movies_collection no_faults
        \<lparr>meth = ''POST'', path = ''/movies'',
         body = DocRest (JObj [(runes ''title'', JStr (runes ''Dune''))]) '']]''\<rparr> empty_store))
       = 201
   \<and> movies (db_after (movies_collection no_faults
        \<lparr>meth = ''POST'', path = ''/movies'',
         body = DocRest (JObj [(runes ''title'', JStr (runes ''Dune''))]) '']]''\<rparr> empty_store))
       = [(1, runes ''Dune'')]"
proof -
  have "runes ''Title'' \<noteq> runes ''title''" by (simp add: runes_def)
  then have o: "has_other_field (Doc (JObj [(runes ''Title'', JStr (runes ''Dune''))]))"
    by (simp add: has_other_field_def)
  have p: "movies_collection no_faults
        \<lparr>meth = ''POST'', path = ''/movies'',
         body = Doc (JObj [(runes ''Title'', JStr (runes ''Dune''))])\<rparr> empty_store
      = \<lparr>resp = writeJSON 201 (VMovie \<lparr>ID = 1, Title = runes ''Dune''\<rparr>),
         db_after = \<lparr>movies = [(1, runes ''Dune'')], last_value = 1\<rparr>,
         trace = [ReadBody, Sql (InsertTitle (runes ''Dune''))]\<rparr>"
    by (simp add: movies_collection_def readJSON_Title TrimSpace_Dune_id Dune_nonempty
        db_insert_first Let_def)
  have m: "malformed_json (DocRest (JObj [(runes ''title'', JStr (runes ''Dune''))]) '']]'')"
    by (simp add: malformed_json_def isJSONSpace_def)
  have q: "movies_collection no_faults
        \<lparr>meth = ''POST'', path = ''/movies'',
         body = DocRest (JObj [(runes ''title'', JStr (runes ''Dune''))]) '']]''\<rparr> empty_store
      = \<lparr>resp = writeJSON 201 (VMovie \<lparr>ID = 1, Title = runes ''Dune''\<rparr>),
         db_after = \<lparr>movies = [(1, runes ''Dune'')], last_value = 1\<rparr>,
         trace = [ReadBody, Sql (InsertTitle (runes ''Dune''))]\<rparr>"
    by (simp add: movies_collection_def readJSON_title TrimSpace_Dune_id Dune_nonempty
        db_insert_first Let_def)
  show ?thesis unfolding p q using o m by (simp add: writeJSON_def)
qed

section \<open>Methods and headers\<close>

text \<open>
  Claim C6, amended.  A request given to the handler of \<^verbatim>\<open>/movies\<close> whose method is neither
  \<^verbatim>\<open>GET\<close> nor \<^verbatim>\<open>POST\<close>, and a request given to the handler of \<^verbatim>\<open>/movies/\<close> whose identifier
  parses as a positive integer and whose method is none of \<^verbatim>\<open>GET\<close>, \<^verbatim>\<open>PUT\<close> and \<^verbatim>\<open>DELETE\<close>, is
  answered 405 with an empty body, without effect.  With any other identifier the handler of
  \<^verbatim>\<open>/movies/\<close> answers 400 \<^verbatim>\<open>invalid id\<close> whatever the method.
\<close>

theorem method_not_allowed_405:
  "(meth r \<noteq> ''GET'' \<and> meth r \<noteq> ''POST'' \<longrightarrow>
      movies_collection drv r db =
        \<lparr>resp = \<lparr>header = [], status = 405, payload = None\<rparr>, db_after = db, trace = []\<rparr>)
   \<and> (valid_id (path r) \<and> meth r \<noteq> ''GET'' \<and> meth r \<noteq> ''PUT'' \<and> meth r \<noteq> ''DELETE'' \<longrightarrow>
      movies_item drv r db =
        \<lparr>resp = \<lparr>header = [], status = 405, payload = None\<rparr>, db_after = db, trace = []\<rparr>)
   \<and> (\<not> valid_id (path r) \<longrightarrow>
      movies_item drv r db =
        \<lparr>resp = \<lparr>header = [(''Content-Type'', ''application/json'')], status = 400,
                 payload = Some (JObj [(runes ''error'', JStr (runes ''invalid id''))])\<rparr>,
         db_after = db, trace = []\<rparr>)"
proof (intro conjI impI)
  assume "meth r \<noteq> ''GET'' \<and> meth r \<noteq> ''POST''"
  then show "movies_collection drv r db =
        \<lparr>resp = \<lparr>header = [], status = 405, payload = None\<rparr>, db_after = db, trace = []\<rparr>"
    by (simp add: movies_collection_def WriteHeader_def)
next
  assume a: "valid_id (path r) \<and> meth r \<noteq> ''GET'' \<and> meth r \<noteq> ''PUT'' \<and> meth r \<noteq> ''DELETE''"
  then show "movies_item drv r db =
        \<lparr>resp = \<lparr>header = [], status = 405, payload = None\<rparr>, db_after = db, trace = []\<rparr>"
    by (simp add: movies_item_valid item_switch_def WriteHeader_def)
next
  assume "\<not> valid_id (path r)"
  then show "movies_item drv r db =
        \<lparr>resp = \<lparr>header = [(''Content-Type'', ''application/json'')], status = 400,
                 payload = Some (JObj [(runes ''error'', JStr (runes ''invalid id''))])\<rparr>,
         db_after = db, trace = []\<rparr>"
    by (simp add: movies_item_invalid invalid_id_outcome_def writeJSON_def errorMap_def)
qed

theorem method_not_allowed_405_witness:
  "movies_collection no_faults \<lparr>meth = ''PATCH'', path = ''/movies'', body = Malformed\<rparr>
     empty_store
     = \<lparr>resp = \<lparr>header = [], status = 405, payload = None\<rparr>, db_after = empty_store,
        trace = []\<rparr>
   \<and> valid_id ''/movies/1''
   \<and> movies_item no_faults \<lparr>meth = ''PATCH'', path = ''/movies/1'', body = Malformed\<rparr>
       empty_store
     = \<lparr>resp = \<lparr>header = [], status = 405, payload = None\<rparr>, db_after = empty_store,
        trace = []\<rparr>
   \<and> \<not> valid_id ''/movies/abc''
   \<and> status (resp (movies_item no_faults
        \<lparr>meth = ''PATCH'', path = ''/movies/abc'', body = Malformed\<rparr> empty_store)) = 400"
proof -
  note w = method_not_allowed_405 [of _ no_faults empty_store]
  have a: "movies_collection no_faults \<lparr>meth = ''PATCH'', path = ''/movies'', body = Malformed\<rparr>
     empty_store
     = \<lparr>resp = \<lparr>header = [], status = 405, payload = None\<rparr>, db_after = empty_store,
        trace = []\<rparr>"
    using w [of "\<lparr>meth = ''PATCH'', path = ''/movies'', body = Malformed\<rparr>"] by simp
  have b: "movies_item no_faults \<lparr>meth = ''PATCH'', path = ''/movies/1'', body = Malformed\<rparr>
       empty_store
     = \<lparr>resp = \<lparr>header = [], status = 405, payload = None\<rparr>, db_after = empty_store,
        trace = []\<rparr>"
    using w [of "\<lparr>meth = ''PATCH'', path = ''/movies/1'', body = Malformed\<rparr>"]
    by (simp add: valid_id_1)
  have c: "status (resp (movies_item no_faults
        \<lparr>meth = ''PATCH'', path = ''/movies/abc'', body = Malformed\<rparr> empty_store)) = 400"
    using w [of "\<lparr>meth = ''PATCH'', path = ''/movies/abc'', body = Malformed\<rparr>"]
    by (simp add: not_valid_id_abc)
  from a b c show ?thesis
    by (simp only: valid_id_1 not_valid_id_abc simp_thms)
qed

text \<open>
  Claim C6 as stated fails on two of the matched paths: the handler of \<^verbatim>\<open>/health\<close> has no
  switch on the method, so \<^verbatim>\<open>POST /health\<close> is answered 200 with the status payload, and
  \<^verbatim>\<open>PATCH /movies/abc\<close> is answered 400.
\<close>

theorem health_any_method_counterexample:
  "resp (health \<lparr>meth = ''POST'', path = ''/health'', body = Malformed\<rparr> empty_store)
     = \<lparr>header = [(''Content-Type'', ''application/json'')], status = 200,
        payload = Some (JObj [(runes ''status'', JStr (runes ''ok''))])\<rparr>
   \<and> status (resp (movies_item no_faults
        \<lparr>meth = ''PATCH'', path = ''/movies/abc'', body = Malformed\<rparr> empty_store)) = 400"
  by (simp add: health_def writeJSON_def movies_item_invalid not_valid_id_abc
      invalid_id_outcome_simps)

lemma writeJSON_shape:
  "payload (writeJSON c v) \<noteq> None"
  "map_of (header (writeJSON c v)) ''Content-Type'' = Some ''application/json''"
  "status (writeJSON c v) = c"
  by (simp_all add: writeJSON_def)

lemma WriteHeader_shape:
  "payload (WriteHeader c) = None"
  "header (WriteHeader c) = []"
  "status (WriteHeader c) = c"
  by (simp_all add: WriteHeader_def)

lemma json_or_bare_writeJSON: "c \<noteq> 405 \<Longrightarrow> c \<noteq> 204 \<Longrightarrow> json_or_bare (writeJSON c v)"
  by (auto simp: json_or_bare_def)

lemma json_or_bare_WriteHeader: "json_or_bare (WriteHeader 405)" "json_or_bare (WriteHeader 204)"
  by (simp_all add: json_or_bare_def)

lemma health_shape: "json_or_bare (resp (health r db))"
  by (simp add: health_def json_or_bare_writeJSON)

lemma movies_collection_shape: "json_or_bare (resp (movies_collection drv r db))"
  by (simp add: movies_collection_def Let_def json_or_bare_writeJSON json_or_bare_WriteHeader
      split: sum.splits prod.splits)

lemma item_switch_shape: "json_or_bare (resp (item_switch drv r i db))"
  by (simp add: item_switch_def Let_def json_or_bare_writeJSON json_or_bare_WriteHeader
      split: sum.splits prod.splits dberr.splits)

lemma movies_item_shape: "json_or_bare (resp (movies_item drv r db))"
  by (cases "valid_id (path r)")
     (simp_all add: movies_item_valid movies_item_invalid item_switch_shape
       invalid_id_outcome_def json_or_bare_writeJSON)

text \<open>
  Claim C7, amended.  A response of the three handlers carries
  \<^verbatim>\<open>Content-Type: application/json\<close> exactly when it has a body; the responses without a body
  are the 405 and the 204 ones, written by \<^verbatim>\<open>WriteHeader\<close> alone, and they carry no
  \<^verbatim>\<open>Content-Type\<close>.
\<close>

theorem content_type_with_body:
  assumes "oc = health r db \<or> oc = movies_collection drv r db \<or> oc = movies_item drv r db"
  shows "(payload (resp oc) \<noteq> None \<longrightarrow>
            map_of (header (resp oc)) ''Content-Type'' = Some ''application/json'')
       \<and> (payload (resp oc) = None \<longrightarrow> map_of (header (resp oc)) ''Content-Type'' = None)
       \<and> (payload (resp oc) = None \<longleftrightarrow> status (resp oc) = 405 \<or> status (resp oc) = 204)"
proof -
  have "json_or_bare (resp oc)"
    using assms health_shape movies_collection_shape movies_item_shape
    by blast
  then show ?thesis
    by (auto simp: json_or_bare_def writeJSON_shape WriteHeader_shape)
qed

theorem content_type_with_body_witness:
  "payload (resp (health \<lparr>meth = ''GET'', path = ''/health'', body = Malformed\<rparr> empty_store))
     \<noteq> None
   \<and> map_of (header (resp (health \<lparr>meth = ''GET'', path = ''/health'', body = Malformed\<rparr>
         empty_store))) ''Content-Type'' = Some ''application/json''
   \<and> status (resp (movies_collection no_faults
         \<lparr>meth = ''PATCH'', path = ''/movies'', body = Malformed\<rparr> empty_store)) = 405
   \<and> payload (resp (movies_collection no_faults
         \<lparr>meth = ''PATCH'', path = ''/movies'', body = Malformed\<rparr> empty_store)) = None
   \<and> map_of (header (resp (movies_collection no_faults
         \<lparr>meth = ''PATCH'', path = ''/movies'', body = Malformed\<rparr> empty_store)))
         ''Content-Type'' = None"
proof -
  let ?h = "\<lparr>meth = ''GET'', path = ''/health'', body = Malformed\<rparr>"
  let ?p = "\<lparr>meth = ''PATCH'', path = ''/movies'', body = Malformed\<rparr>"
  have ph: "payload (resp (health ?h empty_store)) \<noteq> None"
    by (simp add: health_def writeJSON_def)
  have st: "status (resp (movies_collection no_faults ?p empty_store)) = 405"
    by (simp add: movies_collection_def WriteHeader_def)
  from content_type_with_body [of "health ?h empty_store" ?h empty_store no_faults] ph
  have a: "map_of (header (resp (health ?h empty_store))) ''Content-Type''
             = Some ''application/json''"
    by blast
  from content_type_with_body
         [of "movies_collection no_faults ?p empty_store" ?p empty_store no_faults] st
  have b: "payload (resp (movies_collection no_faults ?p empty_store)) = None
         \<and> map_of (header (resp (movies_collection no_faults ?p empty_store))) ''Content-Type''
             = None"
    by simp
  from ph a st b show ?thesis by simp
qed

text \<open>
  Claim C7 as stated fails: the 405 answer to \<^verbatim>\<open>PATCH /movies\<close> and the 204 answer to a
  \<^verbatim>\<open>DELETE\<close> that removed a row have no \<^verbatim>\<open>Content-Type\<close> header.
\<close>

theorem bare_status_no_content_type_counterexample:
  "status (resp (movies_collection no_faults
      \<lparr>meth = ''PATCH'', path = ''/movies'', body = Malformed\<rparr> empty_store)) = 405
   \<and> map_of (header (resp (movies_collection no_faults
      \<lparr>meth = ''PATCH'', path = ''/movies'', body = Malformed\<rparr> empty_store))) ''Content-Type''
       = None
   \<and> status (resp (movies_item no_faults
      \<lparr>meth = ''DELETE'', path = ''/movies/1'', body = Malformed\<rparr>
      \<lparr>movies = [(1, runes ''Dune'')], last_value = 1\<rparr>)) = 204
   \<and> map_of (header (resp (movies_item no_faults
      \<lparr>meth = ''DELETE'', path = ''/movies/1'', body = Malformed\<rparr>
      \<lparr>movies = [(1, runes ''Dune'')], last_value = 1\<rparr>))) ''Content-Type''
       = None"
  by (simp add: movies_collection_def movies_item_valid valid_id_1 item_id_1 item_switch_def
      db_delete_def no_faults_def has_id_def WriteHeader_def)

section \<open>The readiness gate returns at the first success\<close>

lemma waitForDB_reaches:
  "ping (probes g + j) \<Longrightarrow> (\<forall>i<j. \<not> ping (probes g + i)) \<Longrightarrow>
   waitForDB ping g =
     Some (g\<lparr>probes := Suc (probes g + j), slept := slept g + j,
             logged := logged g @ replicate j ''Waiting for database...''\<rparr>)"
proof (induction j arbitrary: g)
  case 0
  then show ?case by (subst waitForDB.simps) simp
next
  case (Suc j)
  let ?g = "g\<lparr>probes := Suc (probes g),
               logged := logged g @ [''Waiting for database...''],
               slept := slept g + 1\<rparr>"
  from Suc.prems(2) have n: "\<not> ping (probes g)" by force
  have a: "ping (probes ?g + j)" using Suc.prems by simp
  have b: "\<forall>i<j. \<not> ping (probes ?g + i)"
  proof (intro allI impI)
    fix i assume "i < j"
    then have "\<not> ping (probes g + Suc i)" using Suc.prems(2) by blast
    then show "\<not> ping (probes ?g + i)" by simp
  qed
  show ?case using Suc.IH[OF a b] n
    by (subst waitForDB.simps) (simp add: replicate_append_same)
qed

lemma waitForDB_Some_probe:
  assumes "waitForDB ping g = Some g'"
  shows "\<exists>k\<ge>probes g. ping k"
  using assms
proof (induction rule: waitForDB.raw_induct[rotated 1, consumes 1])
  case (1 w ping g g')
  show ?case
  proof (cases "ping (probes g)")
    case True
    then show ?thesis by blast
  next
    case False
    with 1(2) have "w ping (g\<lparr>probes := Suc (probes g),
                logged := logged g @ [''Waiting for database...''],
                slept := slept g + 1\<rparr>) = Some g'" by simp
    from 1(1)[OF this] obtain k where "k \<ge> Suc (probes g)" "ping k" by auto
    then show ?thesis by (meson Suc_leD)
  qed
qed

lemma waitForDB_gate0:
  assumes "ping n" and "\<forall>k<n. \<not> ping k"
  shows "waitForDB ping gate0 =
           Some \<lparr>probes = Suc n, slept = n, logged = replicate n ''Waiting for database...''\<rparr>"
  using waitForDB_reaches [of ping gate0 n] assms by (simp add: gate0_def)

text \<open>
  Claim C8.  Over any sequence of probe results, \<^verbatim>\<open>waitForDB\<close> returns exactly when some
  probe succeeds.  It returns at the first success, probe number \<open>n\<close>, having issued
  \<open>n + 1\<close> probes, slept one second and logged one line after each of the \<open>n\<close> failures; when
  every probe fails it never returns.
\<close>

theorem waitForDB_first_success:
  "(ping n \<and> (\<forall>k<n. \<not> ping k) \<longrightarrow>
      waitForDB ping gate0 =
        Some \<lparr>probes = Suc n, slept = n, logged = replicate n ''Waiting for database...''\<rparr>)
   \<and> ((\<exists>g. waitForDB ping gate0 = Some g) \<longleftrightarrow> (\<exists>k. ping k))
   \<and> ((\<forall>k. \<not> ping k) \<longrightarrow> waitForDB ping gate0 = None)"
proof (intro conjI impI)
  assume "ping n \<and> (\<forall>k<n. \<not> ping k)"
  then show "waitForDB ping gate0 =
        Some \<lparr>probes = Suc n, slept = n, logged = replicate n ''Waiting for database...''\<rparr>"
    using waitForDB_gate0 by blast
next
  show "(\<exists>g. waitForDB ping gate0 = Some g) \<longleftrightarrow> (\<exists>k. ping k)"
  proof
    assume "\<exists>g. waitForDB ping gate0 = Some g"
    then show "\<exists>k. ping k" using waitForDB_Some_probe by blast
  next
    assume "\<exists>k. ping k"
    then obtain m where m: "ping m" "\<forall>k<m. \<not> ping k"
      using exists_least_iff [of ping] by blast
    then show "\<exists>g. waitForDB ping gate0 = Some g"
      using waitForDB_gate0 by blast
  qed
next
  assume none: "\<forall>k. \<not> ping k"
  show "waitForDB ping gate0 = None"
  proof (cases "waitForDB ping gate0")
    case None
    then show ?thesis .
  next
    case (Some g)
    then show ?thesis using waitForDB_Some_probe none by blast
  qed
qed

theorem waitForDB_first_success_witness:
  "(2::nat) \<le> 2 \<and> \<not> (\<exists>k<2. (2::nat) \<le> k)
   \<and> waitForDB (\<lambda>k. 2 \<le> k) gate0 =
       Some \<lparr>probes = 3, slept = 2,
             logged = [''Waiting for database...'', ''Waiting for database...'']\<rparr>"
  using waitForDB_first_success [of "\<lambda>k. 2 \<le> k" 2]
  by (simp add: numeral_2_eq_2 numeral_3_eq_3)


end
